theory Spec2Isabelle
  imports Main "HOL-Library.Monad_Syntax"
begin

section \<open>JavaScript values\<close>

text \<open>
  The HTTP entry point \<^verbatim>\<open>src/http-server.ts\<close> and the remote persistence class of
  \<^verbatim>\<open>src/firebase-analytics.ts\<close> are embedded as functions on explicit state.

  A string is a list of characters, one per unit of the JavaScript string (the alphabet
  is that of \<open>char\<close>): \<^verbatim>\<open>substring(0, n)\<close> is \<open>take n\<close>, a template literal is \<open>@\<close>,
  \<^verbatim>\<open>===\<close> on strings is equality. A value that may be \<^verbatim>\<open>undefined\<close> is an \<open>option\<close>.
  The clock, the requests and the outcome of every call to the remote store, the file
  system and the MCP SDK are arguments of the functions that depend on them.
\<close>

definition js_or :: "string option \<Rightarrow> string \<Rightarrow> string" where
  \<comment> \<open>\<^verbatim>\<open>a || b\<close> for a string or \<^verbatim>\<open>undefined\<close> \<open>a\<close>: the empty string is falsy.\<close>
  "js_or a b = (case a of None \<Rightarrow> b | Some s \<Rightarrow> if s = [] then b else s)"

definition whitespace :: "char \<Rightarrow> bool" where
  \<comment> \<open>The white space and line terminators that \<^verbatim>\<open>trim\<close> removes (tab, LF, VT, FF, CR, space, NBSP).\<close>
  "whitespace c = (c \<in> set [CHR 0x09, CHR 0x0A, CHR 0x0B, CHR 0x0C, CHR 0x0D, CHR '' '', CHR 0xA0])"

definition trim :: "string \<Rightarrow> string" where
  "trim s = rev (dropWhile whitespace (rev (dropWhile whitespace s)))"

definition first_of_split :: "char \<Rightarrow> string \<Rightarrow> string" where
  \<comment> \<open>\<^verbatim>\<open>s.split(sep)[0]\<close>\<close>
  "first_of_split sep s = takeWhile (\<lambda>c. c \<noteq> sep) s"

fun js_includes :: "string \<Rightarrow> string \<Rightarrow> bool" where
  \<comment> \<open>\<^verbatim>\<open>s.includes(t)\<close>\<close>
  "js_includes [] t = (t = [])"
| "js_includes (c # s) t = (take (length t) (c # s) = t \<or> js_includes s t)"

text \<open>
  A number is an integer or one of the three values that are not finite. The integers
  stand for the doubles that are integers; doubles with a fraction are not modelled. The
  sum of two integers is the exact one. It is the sum that the program forms as long as
  the operands and the sum are at most \<open>2^53\<close> in magnitude, the range in which every
  integer is a double; beyond it the program's sum is the nearest double, which is never
  below an operand when the other one is not negative. Counting requests one by one does
  not leave that range; an import can. So where a statement below gives the value of a
  counter that an import may have changed, it is made for safe integers.
\<close>

datatype number = Finite int | PosInfinity | NegInfinity | NaN

fun js_add :: "number \<Rightarrow> number \<Rightarrow> number" where
  \<comment> \<open>\<^verbatim>\<open>x + y\<close> on numbers\<close>
  "js_add (Finite x) (Finite y) = Finite (x + y)"
| "js_add NaN y = NaN"
| "js_add x NaN = NaN"
| "js_add PosInfinity NegInfinity = NaN"
| "js_add NegInfinity PosInfinity = NaN"
| "js_add PosInfinity y = PosInfinity"
| "js_add NegInfinity y = NegInfinity"
| "js_add x PosInfinity = PosInfinity"
| "js_add x NegInfinity = NegInfinity"

fun js_less :: "number \<Rightarrow> number \<Rightarrow> bool" where
  \<comment> \<open>\<^verbatim>\<open>x < y\<close> on numbers: false when one of them is \<^verbatim>\<open>NaN\<close>\<close>
  "js_less (Finite x) (Finite y) = (x < y)"
| "js_less NaN y = False"
| "js_less x NaN = False"
| "js_less x NegInfinity = False"
| "js_less PosInfinity y = False"
| "js_less NegInfinity y = True"
| "js_less x PosInfinity = True"

fun isFinite :: "number \<Rightarrow> bool" where
  "isFinite (Finite x) = True"
| "isFinite x = False"

definition MAX_SAFE_INTEGER :: int where
  "MAX_SAFE_INTEGER = 2 ^ 53 - 1"

fun isSafeInteger :: "number \<Rightarrow> bool" where
  \<comment> \<open>\<^verbatim>\<open>Number.isSafeInteger\<close>: for such a number \<^verbatim>\<open>x++\<close> is exact.\<close>
  "isSafeInteger (Finite x) = (\<bar>x\<bar> \<le> MAX_SAFE_INTEGER)"
| "isSafeInteger x = False"

text \<open>
  JavaScript values made of \<^verbatim>\<open>null\<close>, booleans, numbers, strings, arrays and plain
  objects: what \<^verbatim>\<open>JSON.parse\<close> yields, what the program builds of it, and what the remote
  store holds. An object is the list of its own properties in the order in which
  \<^verbatim>\<open>Object.entries\<close> enumerates them. A new property is added at the end of the list (for
  keys that are array indices, such as \<^verbatim>\<open>"7"\<close>, JavaScript enumerates them first instead).
\<close>

datatype json =
    JNull
  | JBool bool
  | JNum number
  | JStr string
  | JArr "json list"
  | JObj "(string \<times> json) list"

fun truthy :: "json \<Rightarrow> bool" where
  "truthy JNull = False"
| "truthy (JBool b) = b"
| "truthy (JNum n) = (n \<noteq> Finite 0 \<and> n \<noteq> NaN)"
| "truthy (JStr s) = (s \<noteq> [])"
| "truthy (JArr xs) = True"
| "truthy (JObj kvs) = True"

fun get_prop :: "json \<Rightarrow> string \<Rightarrow> json option" where
  \<comment> \<open>\<^verbatim>\<open>data.name\<close> on a value that is not \<^verbatim>\<open>null\<close>; \<open>None\<close> is \<^verbatim>\<open>undefined\<close>.\<close>
  "get_prop (JObj kvs) name = map_of kvs name"
| "get_prop v name = None"

definition or_else :: "json option \<Rightarrow> json \<Rightarrow> json" where
  \<comment> \<open>\<^verbatim>\<open>x || d\<close>\<close>
  "or_else x d = (case x of None \<Rightarrow> d | Some v \<Rightarrow> if truthy v then v else d)"

fun set_prop :: "(string \<times> 'v) list \<Rightarrow> string \<Rightarrow> 'v \<Rightarrow> (string \<times> 'v) list" where
  \<comment> \<open>Defining the own property \<open>k\<close>: an existing entry keeps its place, a new one comes last.\<close>
  "set_prop [] k v = [(k, v)]"
| "set_prop ((k', v') # ps) k v = (if k' = k then (k, v) # ps else (k', v') # set_prop ps k v)"

definition assign :: "(string \<times> 'v) list \<Rightarrow> string \<Rightarrow> 'v \<Rightarrow> (string \<times> 'v) list" where
  \<comment> \<open>The assignment \<^verbatim>\<open>obj[k] = v\<close> on an object created by \<^verbatim>\<open>{}\<close>. The name
      \<^verbatim>\<open>__proto__\<close> is the accessor inherited from \<^verbatim>\<open>Object.prototype\<close>: assigning to it
      creates no own property. (Only own properties are modelled, not the prototype that
      such an assignment may set.)\<close>
  "assign obj k v = (if k = ''__proto__'' then obj else set_prop obj k v)"

section \<open>Sanitizing keys for the remote store\<close>

definition invalid_key_char :: "char \<Rightarrow> bool" where
  \<comment> \<open>The character class of the regular expression \<^verbatim>\<open>/[.#$/\[\]]/g\<close>.\<close>
  "invalid_key_char c = (c \<in> set ''.#$/[]'')"

definition sanitizeKey :: "string \<Rightarrow> string" where
  "sanitizeKey key = map (\<lambda>c. if invalid_key_char c then CHR ''_'' else c) key"

fun sanitizeObject :: "json \<Rightarrow> json"
  and sanitizeEntries :: "(string \<times> json) list \<Rightarrow> (string \<times> json) list \<Rightarrow> (string \<times> json) list" where
  "sanitizeObject (JArr xs) = JArr (map sanitizeObject xs)"
| "sanitizeObject (JObj kvs) = JObj (sanitizeEntries [] kvs)"
| "sanitizeObject v = v"
| "sanitizeEntries sanitized [] = sanitized"
| "sanitizeEntries sanitized ((key, val) # rest) =
     sanitizeEntries (assign sanitized (sanitizeKey key) (sanitizeObject val)) rest"

text \<open>
  \<open>sanitizeEntries\<close> is the \<^verbatim>\<open>for\<close> loop of \<open>sanitizeObject\<close>: its first argument is the
  object \<^verbatim>\<open>sanitized\<close> built so far, its second the entries still to visit.

  The reading of the specification, for comparison: every key is replaced by its sanitized
  form and nothing else changes.
\<close>

fun rename_keys :: "json \<Rightarrow> json" where
  "rename_keys (JArr xs) = JArr (map rename_keys xs)"
| "rename_keys (JObj kvs) = JObj (map (\<lambda>kv. (sanitizeKey (fst kv), rename_keys (snd kv))) kvs)"
| "rename_keys v = v"

fun all_keys :: "json \<Rightarrow> string list" where
  \<comment> \<open>The keys of every mapping in a value, at every depth.\<close>
  "all_keys (JArr xs) = concat (map all_keys xs)"
| "all_keys (JObj kvs) = concat (map (\<lambda>kv. fst kv # all_keys (snd kv)) kvs)"
| "all_keys v = []"

fun keys_kept_apart :: "json \<Rightarrow> bool" where
  \<comment> \<open>In every mapping, no two keys have the same sanitized form and none becomes \<^verbatim>\<open>__proto__\<close>.\<close>
  "keys_kept_apart (JArr xs) = list_all keys_kept_apart xs"
| "keys_kept_apart (JObj kvs) =
     (distinct (map (\<lambda>kv. sanitizeKey (fst kv)) kvs) \<and>
      ''__proto__'' \<notin> set (map (\<lambda>kv. sanitizeKey (fst kv)) kvs) \<and>
      list_all (\<lambda>kv. keys_kept_apart (snd kv)) kvs)"
| "keys_kept_apart v = True"

fun normal :: "json \<Rightarrow> bool" where
  \<comment> \<open>Every mapping has distinct keys, each of them its own sanitized form and not \<^verbatim>\<open>__proto__\<close>.\<close>
  "normal (JArr xs) = list_all normal xs"
| "normal (JObj kvs) =
     (distinct (map fst kvs) \<and>
      list_all (\<lambda>kv. sanitizeKey (fst kv) = fst kv \<and> fst kv \<noteq> ''__proto__'' \<and> normal (snd kv)) kvs)"
| "normal v = True"

definition normal_entries :: "(string \<times> json) list \<Rightarrow> bool" where
  "normal_entries kvs = normal (JObj kvs)"

section \<open>The analytics recorder\<close>

text \<open>
  A \<^verbatim>\<open>Record<string, number>\<close> is the list of its entries, with integers as values: the
  recorder starts an entry at one and raises it by one. The keys are ordinary property
  names: for a name that \<^verbatim>\<open>Object.prototype\<close> defines (such as \<^verbatim>\<open>constructor\<close> or
  \<^verbatim>\<open>__proto__\<close>) the read \<^verbatim>\<open>obj[key]\<close> finds the inherited member, which a list of numbers
  does not represent. The HTTP methods, the endpoint labels and the hour buckets are never
  such names. The two counters \<open>totalRequests\<close> and \<open>totalToolCalls\<close> are numbers: the
  import adds to them what a request submits, which need not be finite.
\<close>

type_synonym counts = "(string \<times> int) list"

record tool_call =
  tool :: string
  timestamp :: string
  clientIp :: string
  userAgent :: string

record analytics =
  serverStartTime :: string
  totalRequests :: number
  totalToolCalls :: number
  requestsByMethod :: counts
  requestsByEndpoint :: counts
  toolCalls :: counts
  recentToolCalls :: "tool_call list"
  clientsByIp :: counts
  clientsByUserAgent :: counts
  hourlyRequests :: counts

definition MAX_RECENT_CALLS :: nat where
  "MAX_RECENT_CALLS = 100"

definition initial_analytics :: "string \<Rightarrow> analytics" where
  \<comment> \<open>The module's initial value; the argument is \<^verbatim>\<open>new Date().toISOString()\<close> at that time.\<close>
  "initial_analytics start =
     \<lparr>serverStartTime = start, totalRequests = Finite 0, totalToolCalls = Finite 0,
      requestsByMethod = [], requestsByEndpoint = [], toolCalls = [],
      recentToolCalls = [], clientsByIp = [], clientsByUserAgent = [],
      hourlyRequests = []\<rparr>"

text \<open>
  What the handlers read of an Express request. The body is the parsed JSON body
  (\<open>None\<close> when \<^verbatim>\<open>req.body\<close> is \<^verbatim>\<open>undefined\<close>); its type depends on the endpoint.
\<close>

record 'b request =
  http_method :: string
  ip :: "string option"
  x_forwarded_for :: "string option"
  user_agent :: "string option"
  accept :: "string option"
  x_plausible_api_key :: "string option"
  x_plausible_api_url :: "string option"
  query_apiKey :: "string option"
  query_apiUrl :: "string option"
  body :: "'b option"

definition client_ip :: "'b request \<Rightarrow> string" where
  \<comment> \<open>\<^verbatim>\<open>(req.headers['x-forwarded-for'] as string)?.split(',')[0]?.trim() || req.ip || 'unknown'\<close>\<close>
  "client_ip req =
     js_or (map_option (\<lambda>h. trim (first_of_split CHR '','' h)) (x_forwarded_for req))
       (js_or (ip req) ''unknown'')"

definition short_agent :: "'b request \<Rightarrow> string" where
  \<comment> \<open>\<^verbatim>\<open>(req.headers['user-agent'] || 'unknown').substring(0, 50)\<close>\<close>
  "short_agent req = take 50 (js_or (user_agent req) ''unknown'')"

definition bump :: "counts \<Rightarrow> string \<Rightarrow> counts" where
  \<comment> \<open>\<^verbatim>\<open>m[k] = (m[k] || 0) + 1\<close>\<close>
  "bump m k = set_prop m k ((case map_of m k of None \<Rightarrow> 0 | Some n \<Rightarrow> if n = 0 then 0 else n) + 1)"

definition trackRequest :: "string \<Rightarrow> 'b request \<Rightarrow> string \<Rightarrow> analytics \<Rightarrow> analytics" where
  \<comment> \<open>The first argument is the clock, \<^verbatim>\<open>new Date().toISOString()\<close>.
      \<^verbatim>\<open>analytics.totalRequests++\<close> adds one.\<close>
  "trackRequest now req endpoint a =
     a\<lparr>totalRequests := js_add (totalRequests a) (Finite 1),
       requestsByMethod := bump (requestsByMethod a) (http_method req),
       requestsByEndpoint := bump (requestsByEndpoint a) endpoint,
       clientsByIp := bump (clientsByIp a) (client_ip req),
       clientsByUserAgent := bump (clientsByUserAgent a) (short_agent req),
       hourlyRequests := bump (hourlyRequests a) (take 13 now)\<rparr>"

definition trackToolCall :: "string \<Rightarrow> string \<Rightarrow> 'b request \<Rightarrow> analytics \<Rightarrow> analytics" where
  "trackToolCall now toolName req a =
     (let toolCall = \<lparr>tool = toolName, timestamp = now, clientIp = client_ip req,
                       userAgent = short_agent req\<rparr>;
          unshifted = toolCall # recentToolCalls a
      in a\<lparr>totalToolCalls := js_add (totalToolCalls a) (Finite 1),
           toolCalls := bump (toolCalls a) toolName,
           recentToolCalls :=
             (if length unshifted > MAX_RECENT_CALLS then butlast unshifted else unshifted)\<rparr>)"

text \<open>Sequences of invocations; each carries the clock value it reads.\<close>

fun trackRequests :: "(string \<times> 'b request \<times> string) list \<Rightarrow> analytics \<Rightarrow> analytics" where
  "trackRequests [] a = a"
| "trackRequests ((now, req, endpoint) # rest) a = trackRequests rest (trackRequest now req endpoint a)"

fun trackToolCalls :: "(string \<times> string \<times> 'b request) list \<Rightarrow> analytics \<Rightarrow> analytics" where
  "trackToolCalls [] a = a"
| "trackToolCalls ((now, toolName, req) # rest) a = trackToolCalls rest (trackToolCall now toolName req a)"

definition call_record :: "string \<times> string \<times> 'b request \<Rightarrow> tool_call" where
  \<comment> \<open>The entry that an invocation of \<open>trackToolCall\<close> puts into \<open>recentToolCalls\<close>.\<close>
  "call_record c = (case c of (now, toolName, req) \<Rightarrow>
     \<lparr>tool = toolName, timestamp = now, clientIp = client_ip req, userAgent = short_agent req\<rparr>)"

section \<open>Persistence: the remote store and the local file\<close>

text \<open>
  The world outside the analytics value: the state of \<^verbatim>\<open>firebaseAnalytics\<close>, the data
  directory with \<^verbatim>\<open>analytics.json\<close>, and the console. The file holds a text: \<open>Doc v\<close>
  is the text that \<^verbatim>\<open>JSON.stringify(v, null, 2)\<close> produces for the value \<open>v\<close>, and
  \<open>NotJson\<close> is any text that \<^verbatim>\<open>JSON.parse\<close> rejects. \<^verbatim>\<open>JSON.stringify\<close> writes a
  number that is not finite as \<^verbatim>\<open>null\<close>, so \<^verbatim>\<open>JSON.parse\<close> of the text \<open>Doc v\<close> is \<open>v\<close>
  with \<^verbatim>\<open>null\<close> in the place of those numbers (\<open>parse_stringified\<close>). The credential cache
  \<^verbatim>\<open>mcpServers\<close> and the numbers of servers and transports constructed so far are part
  of the same record; the number of constructed servers gives each \<^verbatim>\<open>McpServer\<close> instance
  its identity.
\<close>

datatype exn = FirebaseError | FsError | SyntaxError | TypeError

datatype file_content = NotJson | Doc json

datatype data_dir = NoDir | Dir "file_content option"

datatype log_entry =
    CreatedDataDir
  | FirebaseLoadFailed exn
  | FirebaseSaveFailed exn
  | LoadedFromFirebase
  | LoadedFromLocalFile
  | Totals number number
  | NoExistingAnalytics
  | LoadFailed exn
  | StartingFresh
  | Saved bool
  | SaveFailed exn

record mcp_server =
  server_id :: nat
  server_apiUrl :: string
  server_apiKey :: string

record world =
  analytics :: analytics
  firebase_initialized :: bool
  firebase_data :: json
  disk :: data_dir
  console :: "log_entry list"
  mcpServers :: "string \<rightharpoonup> mcp_server"
  servers_created :: nat
  transports_created :: nat

text \<open>
  What the environment decides during one load or save: the clock, the value of the remote
  snapshot, and which of the calls to the remote store and to the file system throw.
\<close>

record io =
  clock :: string
  snapshot_val :: json
  firebase_read_fails :: bool
  firebase_set_fails :: bool
  mkdir_fails :: bool
  write_fails :: bool
  read_fails :: bool

text \<open>
  A function that may throw returns \<open>Inl\<close> of the error or \<open>Inr\<close> of its value, with the
  world as it is at that point. \<open>try_catch\<close> is \<^verbatim>\<open>try { ... } catch (error) { ... }\<close>.
\<close>

type_synonym 'a comp = "world \<Rightarrow> (exn + 'a) \<times> world"

definition returns :: "'a \<Rightarrow> 'a comp" where
  "returns x w = (Inr x, w)"

definition throws :: "exn \<Rightarrow> 'a comp" where
  "throws e w = (Inl e, w)"

definition and_then :: "'a comp \<Rightarrow> ('a \<Rightarrow> 'b comp) \<Rightarrow> 'b comp" where
  "and_then m f w = (case m w of (Inl e, w') \<Rightarrow> (Inl e, w') | (Inr x, w') \<Rightarrow> f x w')"

definition try_catch :: "'a comp \<Rightarrow> (exn \<Rightarrow> 'a comp) \<Rightarrow> 'a comp" where
  "try_catch m handler w = (case m w of (Inl e, w') \<Rightarrow> handler e w' | (Inr x, w') \<Rightarrow> (Inr x, w'))"

definition console_log :: "log_entry \<Rightarrow> unit comp" where
  "console_log line w = (Inr (), w\<lparr>console := console w @ [line]\<rparr>)"

subsection \<open>The analytics value as a JavaScript object\<close>

definition counts_json :: "counts \<Rightarrow> json" where
  "counts_json m = JObj (map (\<lambda>kv. (fst kv, JNum (Finite (snd kv)))) m)"

definition tool_call_json :: "tool_call \<Rightarrow> json" where
  "tool_call_json c =
     JObj [(''tool'', JStr (tool c)), (''timestamp'', JStr (timestamp c)),
           (''clientIp'', JStr (clientIp c)), (''userAgent'', JStr (userAgent c))]"

definition analytics_json :: "analytics \<Rightarrow> json" where
  \<comment> \<open>The object that the variable \<^verbatim>\<open>analytics\<close> holds, with the properties of the interface.\<close>
  "analytics_json a =
     JObj [(''serverStartTime'', JStr (serverStartTime a)),
           (''totalRequests'', JNum (totalRequests a)),
           (''totalToolCalls'', JNum (totalToolCalls a)),
           (''requestsByMethod'', counts_json (requestsByMethod a)),
           (''requestsByEndpoint'', counts_json (requestsByEndpoint a)),
           (''toolCalls'', counts_json (toolCalls a)),
           (''recentToolCalls'', JArr (map tool_call_json (recentToolCalls a))),
           (''clientsByIp'', counts_json (clientsByIp a)),
           (''clientsByUserAgent'', counts_json (clientsByUserAgent a)),
           (''hourlyRequests'', counts_json (hourlyRequests a))]"

text \<open>
  The casts \<^verbatim>\<open>JSON.parse(data) as Analytics\<close> and \<^verbatim>\<open>analytics = firebaseData\<close> are not
  checked by the program. The model reads a value as an \<open>analytics\<close> record when it has
  exactly the properties of the interface with values of the declared types; otherwise the
  result is \<open>None\<close>: the program then continues with a value that is no \<^verbatim>\<open>Analytics\<close>,
  which the model does not follow.
\<close>

fun as_string :: "json \<Rightarrow> string option" where
  "as_string (JStr s) = Some s"
| "as_string v = None"

fun as_number :: "json \<Rightarrow> number option" where
  "as_number (JNum n) = Some n"
| "as_number v = None"

fun as_integer :: "json \<Rightarrow> int option" where
  "as_integer (JNum (Finite n)) = Some n"
| "as_integer v = None"

fun as_count_entries :: "(string \<times> json) list \<Rightarrow> counts option" where
  "as_count_entries [] = Some []"
| "as_count_entries ((k, v) # rest) =
     do { n \<leftarrow> as_integer v; m \<leftarrow> as_count_entries rest; Some ((k, n) # m) }"

fun as_counts :: "json \<Rightarrow> counts option" where
  "as_counts (JObj kvs) = as_count_entries kvs"
| "as_counts v = None"

fun as_tool_call :: "json \<Rightarrow> tool_call option" where
  "as_tool_call (JObj kvs) =
     (if length kvs \<noteq> 4 then None
      else do {
        t \<leftarrow> Option.bind (map_of kvs ''tool'') as_string;
        ts \<leftarrow> Option.bind (map_of kvs ''timestamp'') as_string;
        c \<leftarrow> Option.bind (map_of kvs ''clientIp'') as_string;
        u \<leftarrow> Option.bind (map_of kvs ''userAgent'') as_string;
        Some \<lparr>tool = t, timestamp = ts, clientIp = c, userAgent = u\<rparr> })"
| "as_tool_call v = None"

fun as_tool_calls :: "json list \<Rightarrow> tool_call list option" where
  "as_tool_calls [] = Some []"
| "as_tool_calls (v # rest) =
     do { c \<leftarrow> as_tool_call v; cs \<leftarrow> as_tool_calls rest; Some (c # cs) }"

fun as_recent :: "json \<Rightarrow> tool_call list option" where
  "as_recent (JArr xs) = as_tool_calls xs"
| "as_recent v = None"

fun as_analytics :: "json \<Rightarrow> analytics option" where
  "as_analytics (JObj kvs) =
     (if length kvs \<noteq> 10 then None
      else do {
        start \<leftarrow> Option.bind (map_of kvs ''serverStartTime'') as_string;
        requests \<leftarrow> Option.bind (map_of kvs ''totalRequests'') as_number;
        calls \<leftarrow> Option.bind (map_of kvs ''totalToolCalls'') as_number;
        byMethod \<leftarrow> Option.bind (map_of kvs ''requestsByMethod'') as_counts;
        byEndpoint \<leftarrow> Option.bind (map_of kvs ''requestsByEndpoint'') as_counts;
        byTool \<leftarrow> Option.bind (map_of kvs ''toolCalls'') as_counts;
        recent \<leftarrow> Option.bind (map_of kvs ''recentToolCalls'') as_recent;
        byIp \<leftarrow> Option.bind (map_of kvs ''clientsByIp'') as_counts;
        byAgent \<leftarrow> Option.bind (map_of kvs ''clientsByUserAgent'') as_counts;
        hourly \<leftarrow> Option.bind (map_of kvs ''hourlyRequests'') as_counts;
        Some \<lparr>serverStartTime = start, totalRequests = requests, totalToolCalls = calls,
              requestsByMethod = byMethod, requestsByEndpoint = byEndpoint, toolCalls = byTool,
              recentToolCalls = recent, clientsByIp = byIp, clientsByUserAgent = byAgent,
              hourlyRequests = hourly\<rparr> })"
| "as_analytics v = None"

subsection \<open>The class \<^verbatim>\<open>FirebaseAnalytics\<close>\<close>

definition ref_once :: "io \<Rightarrow> json comp" where
  \<comment> \<open>\<^verbatim>\<open>(await this.ref.once('value')).val()\<close>\<close>
  "ref_once env = (if firebase_read_fails env then throws FirebaseError else returns (snapshot_val env))"

definition ref_set :: "io \<Rightarrow> json \<Rightarrow> unit comp" where
  \<comment> \<open>\<^verbatim>\<open>await this.ref.set(value)\<close>; \<open>firebase_data\<close> is the value last handed to the store.\<close>
  "ref_set env v w = (if firebase_set_fails env then throws FirebaseError w
                      else returns () (w\<lparr>firebase_data := v\<rparr>))"

definition FirebaseAnalytics_loadAnalytics :: "io \<Rightarrow> json option comp" where
  "FirebaseAnalytics_loadAnalytics env w =
     (if \<not> firebase_initialized w then returns None w
      else try_catch
             (and_then (ref_once env) (\<lambda>data.
                if \<not> truthy data then returns None
                else returns (Some (JObj
                  [(''serverStartTime'', or_else (get_prop data ''serverStartTime'') (JStr (clock env))),
                   (''totalRequests'', or_else (get_prop data ''totalRequests'') (JNum (Finite 0))),
                   (''totalToolCalls'', or_else (get_prop data ''totalToolCalls'') (JNum (Finite 0))),
                   (''requestsByMethod'', or_else (get_prop data ''requestsByMethod'') (JObj [])),
                   (''requestsByEndpoint'', or_else (get_prop data ''requestsByEndpoint'') (JObj [])),
                   (''toolCalls'', or_else (get_prop data ''toolCalls'') (JObj [])),
                   (''recentToolCalls'', or_else (get_prop data ''recentToolCalls'') (JArr [])),
                   (''clientsByIp'', or_else (get_prop data ''clientsByIp'') (JObj [])),
                   (''clientsByUserAgent'', or_else (get_prop data ''clientsByUserAgent'') (JObj [])),
                   (''hourlyRequests'', or_else (get_prop data ''hourlyRequests'') (JObj []))]))))
             (\<lambda>error. and_then (console_log (FirebaseLoadFailed error)) (\<lambda>u. returns None)) w)"

definition FirebaseAnalytics_saveAnalytics :: "io \<Rightarrow> (string \<times> json) list \<Rightarrow> unit comp" where
  \<comment> \<open>The argument is the list of properties of the object passed as \<^verbatim>\<open>analytics\<close>.\<close>
  "FirebaseAnalytics_saveAnalytics env props w =
     (if \<not> firebase_initialized w then returns () w
      else try_catch
             (ref_set env (JObj (set_prop props ''lastUpdated'' (JStr (clock env)))))
             (\<lambda>error. console_log (FirebaseSaveFailed error)) w)"

subsection \<open>Loading and saving in \<^verbatim>\<open>http-server.ts\<close>\<close>

definition ensureDataDir :: "io \<Rightarrow> unit comp" where
  "ensureDataDir env w =
     (case disk w of
        Dir f \<Rightarrow> returns () w
      | NoDir \<Rightarrow>
          if mkdir_fails env then throws FsError w
          else console_log CreatedDataDir (w\<lparr>disk := Dir None\<rparr>))"

fun parse_stringified :: "json \<Rightarrow> json" where
  \<comment> \<open>\<^verbatim>\<open>JSON.parse(JSON.stringify(v, null, 2))\<close>\<close>
  "parse_stringified (JNum n) = (if isFinite n then JNum n else JNull)"
| "parse_stringified (JArr xs) = JArr (map parse_stringified xs)"
| "parse_stringified (JObj kvs) = JObj (map (\<lambda>kv. (fst kv, parse_stringified (snd kv))) kvs)"
| "parse_stringified v = v"

fun JSON_parse :: "file_content \<Rightarrow> exn + json" where
  \<comment> \<open>\<^verbatim>\<open>JSON.parse(data)\<close> for the text \<^verbatim>\<open>data\<close> of a file\<close>
  "JSON_parse NotJson = Inl SyntaxError"
| "JSON_parse (Doc v) = Inr (parse_stringified v)"

definition writeFileSync :: "io \<Rightarrow> json \<Rightarrow> unit comp" where
  \<comment> \<open>\<^verbatim>\<open>fs.writeFileSync(ANALYTICS_FILE, JSON.stringify(value, null, 2))\<close>: the file then
      holds the text \<open>Doc value\<close>.\<close>
  "writeFileSync env v w =
     (case disk w of
        NoDir \<Rightarrow> throws FsError w
      | Dir f \<Rightarrow>
          if write_fails env then throws FsError w
          else returns () (w\<lparr>disk := Dir (Some (Doc v))\<rparr>))"

fun sanitized_props :: "json \<Rightarrow> (string \<times> json) list" where
  \<comment> \<open>The properties of \<^verbatim>\<open>sanitizeObject(analytics) as Analytics\<close>.\<close>
  "sanitized_props (JObj kvs) = kvs"
| "sanitized_props v = []"

definition saveAnalytics :: "io \<Rightarrow> unit comp" where
  "saveAnalytics env =
     try_catch
       (and_then (\<lambda>w. if firebase_initialized w
                       then FirebaseAnalytics_saveAnalytics env
                              (sanitized_props (sanitizeObject (analytics_json (analytics w)))) w
                       else returns () w)
        (\<lambda>u. and_then (ensureDataDir env)
        (\<lambda>u. and_then (\<lambda>w. writeFileSync env (analytics_json (analytics w)) w)
        (\<lambda>u w. console_log (Saved (firebase_initialized w)) w))))
       (\<lambda>error. console_log (SaveFailed error))"

definition adopt :: "json \<Rightarrow> log_entry \<Rightarrow> world \<Rightarrow> ((exn + unit) \<times> world) option" where
  \<comment> \<open>The assignment \<^verbatim>\<open>analytics = value\<close> and the two lines logged after it.\<close>
  "adopt v source w =
     (case as_analytics v of
        None \<Rightarrow> None
      | Some a \<Rightarrow>
          Some (Inr (), w\<lparr>analytics := a,
                          console := console w @ [source, Totals (totalRequests a) (totalToolCalls a)]\<rparr>))"

definition loadLocal :: "io \<Rightarrow> world \<Rightarrow> ((exn + unit) \<times> world) option" where
  \<comment> \<open>The second half of the \<^verbatim>\<open>try\<close> block of \<open>loadAnalytics\<close>: the fallback to the local file.\<close>
  "loadLocal env w =
     (case ensureDataDir env w of
        (Inl e, w1) \<Rightarrow> Some (Inl e, w1)
      | (Inr u, w1) \<Rightarrow>
          (case disk w1 of
             Dir (Some content) \<Rightarrow>
               if read_fails env then Some (Inl FsError, w1)
               else (case JSON_parse content of
                       Inl error \<Rightarrow> Some (Inl error, w1)
                     | Inr JNull \<Rightarrow> Some (Inl TypeError, w1)
                     | Inr (JObj loaded) \<Rightarrow>
                         adopt (JObj (set_prop loaded ''serverStartTime''
                                  (or_else (map_of loaded ''serverStartTime'') (JStr (clock env)))))
                           LoadedFromLocalFile w1
                     | Inr other \<Rightarrow> None)
           | no_file \<Rightarrow> Some (console_log NoExistingAnalytics w1)))"

definition loadAnalytics :: "io \<Rightarrow> world \<Rightarrow> ((exn + unit) \<times> world) option" where
  "loadAnalytics env w =
     map_option
       (\<lambda>r. case r of
              (Inl error, w') \<Rightarrow>
                (Inr (), w'\<lparr>console := console w' @ [LoadFailed error, StartingFresh]\<rparr>)
            | (Inr u, w') \<Rightarrow> (Inr u, w'))
       (if firebase_initialized w then
          (case FirebaseAnalytics_loadAnalytics env w of
             (Inr (Some firebaseData), w1) \<Rightarrow> adopt firebaseData LoadedFromFirebase w1
           | (Inr None, w1) \<Rightarrow> loadLocal env w1
           | (Inl e, w1) \<Rightarrow> Some (Inl e, w1))
        else loadLocal env w)"

section \<open>The HTTP endpoints\<close>

text \<open>
  A response is either the value that the handler itself passes to \<^verbatim>\<open>res.json\<close>, with the
  status code, or whatever the transport of the MCP SDK writes. The SDK is not part of the repository: what
  \<^verbatim>\<open>server.connect\<close> and \<^verbatim>\<open>transport.handleRequest\<close> do is an input (\<open>sdk_outcome\<close>).
\<close>

datatype response =
    Json nat json
  | ByTransport
  | Unfinished

datatype sdk_outcome =
    Responds
  | ConnectThrows
  | HandleRequestThrows bool

record import_body =
  import_totalRequests :: "number option"
  import_totalToolCalls :: "number option"

record rpc_body =
  rpc_method :: "string option"
  tool_name :: "string option"

text \<open>
  The two records above are the properties that the handlers read of \<^verbatim>\<open>req.body\<close>, when
  they are absent or have the expected type (a number for the import, strings for
  \<^verbatim>\<open>method\<close> and \<^verbatim>\<open>params?.name\<close>). The handlers do not check these types. For the
  import this matters: \<^verbatim>\<open>+=\<close> with a submitted value that is not a number (a string, say)
  makes the counter a string, which is no \<^verbatim>\<open>Analytics\<close> value; the model covers the
  requests that submit numbers, of either sign, finite or not.
\<close>

record config =
  PLAUSIBLE_API_URL :: "string option"
  PLAUSIBLE_API_KEY :: "string option"

definition DEFAULT_PLAUSIBLE_API_URL :: "config \<Rightarrow> string" where
  "DEFAULT_PLAUSIBLE_API_URL cfg = js_or (PLAUSIBLE_API_URL cfg) ''https://plausible.io''"

definition DEFAULT_PLAUSIBLE_API_KEY :: "config \<Rightarrow> string" where
  "DEFAULT_PLAUSIBLE_API_KEY cfg = js_or (PLAUSIBLE_API_KEY cfg) []"

record mcp_env =
  request_clock :: string
  tool_call_clock :: string
  sdk :: sdk_outcome

record handled =
  response :: response
  bound_server :: "mcp_server option"
  bound_transport :: "nat option"

text \<open>
  \<open>bound_server\<close> is the value of the variable \<^verbatim>\<open>demoServer\<close> or \<^verbatim>\<open>mcpServer\<close> that the
  request's transport was created for, \<open>bound_transport\<close> the number of that transport;
  both are \<open>None\<close> when the handler returned before.
\<close>

subsection \<open>The endpoints that only count the request, and the import\<close>

definition track :: "string \<Rightarrow> 'b request \<Rightarrow> string \<Rightarrow> world \<Rightarrow> world" where
  "track now req endpoint w = w\<lparr>analytics := trackRequest now req endpoint (analytics w)\<rparr>"

definition import_failed :: json where
  "import_failed =
     JObj [(''error'', JStr ''Failed to import analytics''),
           (''details'', JStr ''TypeError: Cannot read properties of undefined (reading 'totalRequests')'')]"

definition imported :: "analytics \<Rightarrow> json" where
  "imported a =
     JObj [(''message'', JStr ''Analytics imported successfully''),
           (''currentStats'', JObj [(''totalRequests'', JNum (totalRequests a)),
                                    (''totalToolCalls'', JNum (totalToolCalls a))])]"

definition add_imported :: "import_body \<Rightarrow> analytics \<Rightarrow> analytics" where
  \<comment> \<open>The two \<^verbatim>\<open>if (importData.x) { analytics.x += importData.x; }\<close> statements.\<close>
  "add_imported importData a =
     (let a1 = (case import_totalRequests importData of
                  None \<Rightarrow> a
                | Some n \<Rightarrow> if truthy (JNum n) then a\<lparr>totalRequests := js_add (totalRequests a) n\<rparr>
                            else a)
      in (case import_totalToolCalls importData of
            None \<Rightarrow> a1
          | Some n \<Rightarrow> if truthy (JNum n) then a1\<lparr>totalToolCalls := js_add (totalToolCalls a1) n\<rparr>
                      else a1))"

definition importHandler :: "io \<Rightarrow> string \<Rightarrow> import_body request \<Rightarrow> world \<Rightarrow> response \<times> world" where
  \<comment> \<open>\<^verbatim>\<open>app.post('/analytics/import', ...)\<close>; the second argument is the clock read by \<open>trackRequest\<close>.\<close>
  "importHandler env now req w =
     (let w1 = track now req ''/analytics/import'' w
      in case body req of
           None \<Rightarrow> (Json 400 import_failed, w1)
         | Some importData \<Rightarrow>
             (let w2 = w1\<lparr>analytics := add_imported importData (analytics w1)\<rparr>;
                  w3 = snd (saveAnalytics env w2)
              in (Json 200 (imported (analytics w3)), w3)))"

subsection \<open>The MCP endpoint\<close>

definition createMcpServer :: "string \<Rightarrow> string \<Rightarrow> world \<Rightarrow> mcp_server \<times> world" where
  "createMcpServer apiUrl apiKey w =
     (\<lparr>server_id = servers_created w, server_apiUrl = apiUrl, server_apiKey = apiKey\<rparr>,
      w\<lparr>servers_created := servers_created w + 1\<rparr>)"

definition missing_api_key :: json where
  "missing_api_key =
     JObj [(''error'', JStr ''Missing Plausible API key''),
           (''message'', JStr ''Provide your API key via query parameter (?apiKey=YOUR_KEY), header (X-Plausible-Api-Key), or environment variable (PLAUSIBLE_API_KEY)''),
           (''example'', JStr ''/mcp?apiKey=YOUR_PLAUSIBLE_API_KEY'')]"

definition internal_error :: json where
  "internal_error =
     JObj [(''jsonrpc'', JStr ''2.0''),
           (''error'', JObj [(''code'', JNum (Finite (- 32603))), (''message'', JStr ''Internal server error'')]),
           (''id'', JNull)]"

definition serve_with :: "mcp_env \<Rightarrow> mcp_server \<Rightarrow> world \<Rightarrow> handled \<times> world" where
  \<comment> \<open>A new transport for the request, \<^verbatim>\<open>server.connect(transport)\<close>,
      \<^verbatim>\<open>transport.handleRequest(req, res, req.body)\<close>, and the \<^verbatim>\<open>catch\<close> clause of the handler.\<close>
  "serve_with env server w =
     (\<lparr>response =
         (case sdk env of
            Responds \<Rightarrow> ByTransport
          | ConnectThrows \<Rightarrow> Json 500 internal_error
          | HandleRequestThrows headersSent \<Rightarrow>
              if headersSent then Unfinished else Json 500 internal_error),
       bound_server = Some server,
       bound_transport = Some (transports_created w)\<rparr>,
      w\<lparr>transports_created := transports_created w + 1\<rparr>)"

definition fix_accept :: "'b request \<Rightarrow> 'b request" where
  "fix_accept req =
     (let acceptHeader = js_or (accept req) []
      in if js_includes acceptHeader ''text/event-stream'' then req
         else req\<lparr>accept := Some (if acceptHeader \<noteq> [] then acceptHeader @ '', text/event-stream''
                                   else ''text/event-stream'')\<rparr>)"

definition track_tool_call :: "string \<Rightarrow> rpc_body request \<Rightarrow> world \<Rightarrow> world" where
  \<comment> \<open>\<^verbatim>\<open>if (req.body && req.body.method === 'tools/call' && req.body.params?.name) trackToolCall(...)\<close>\<close>
  "track_tool_call now req w =
     (case body req of
        None \<Rightarrow> w
      | Some b \<Rightarrow>
          (case tool_name b of
             None \<Rightarrow> w
           | Some name \<Rightarrow>
               if rpc_method b = Some ''tools/call'' \<and> name \<noteq> []
               then w\<lparr>analytics := trackToolCall now name req (analytics w)\<rparr>
               else w))"

definition apiKey_of :: "config \<Rightarrow> 'b request \<Rightarrow> string" where
  "apiKey_of cfg req =
     js_or (query_apiKey req) (js_or (x_plausible_api_key req) (DEFAULT_PLAUSIBLE_API_KEY cfg))"

definition apiUrl_of :: "config \<Rightarrow> 'b request \<Rightarrow> string" where
  "apiUrl_of cfg req =
     js_or (query_apiUrl req) (js_or (x_plausible_api_url req) (DEFAULT_PLAUSIBLE_API_URL cfg))"

definition mcpMethod_of :: "rpc_body request \<Rightarrow> string option" where
  \<comment> \<open>\<^verbatim>\<open>req.body?.method\<close>\<close>
  "mcpMethod_of req = (case body req of None \<Rightarrow> None | Some b \<Rightarrow> rpc_method b)"

definition isDiscoveryRequest :: "config \<Rightarrow> rpc_body request \<Rightarrow> bool" where
  "isDiscoveryRequest cfg req =
     (let apiKey = apiKey_of cfg req;
          hasCredentials = (apiKey \<noteq> [] \<and> length apiKey > 0)
      in \<not> hasCredentials \<and>
         (case mcpMethod_of req of
            None \<Rightarrow> False
          | Some mcpMethod \<Rightarrow>
              mcpMethod \<noteq> [] \<and>
              (mcpMethod = ''initialize'' \<or> mcpMethod = ''tools/list'' \<or>
               mcpMethod = ''notifications/initialized'')))"

definition credentialsKey :: "string \<Rightarrow> string \<Rightarrow> string" where
  "credentialsKey apiUrl apiKey = apiUrl @ '':'' @ take 8 apiKey"

definition resolve :: "string \<Rightarrow> string \<Rightarrow> world \<Rightarrow> mcp_server \<times> world" where
  \<comment> \<open>"Get or create MCP server for these credentials".\<close>
  "resolve apiUrl apiKey w =
     (case mcpServers w (credentialsKey apiUrl apiKey) of
        Some mcpServer \<Rightarrow> (mcpServer, w)
      | None \<Rightarrow>
          (let (mcpServer, w') = createMcpServer apiUrl apiKey w
           in (mcpServer,
               w'\<lparr>mcpServers := (mcpServers w')(credentialsKey apiUrl apiKey \<mapsto> mcpServer)\<rparr>)))"

definition mcpHandler :: "config \<Rightarrow> mcp_env \<Rightarrow> rpc_body request \<Rightarrow> world \<Rightarrow> handled \<times> world" where
  \<comment> \<open>\<^verbatim>\<open>app.all('/mcp', ...)\<close>\<close>
  "mcpHandler cfg env req0 w0 =
     (let req = fix_accept req0;
          w1 = track (request_clock env) req ''/mcp'' w0;
          w2 = track_tool_call (tool_call_clock env) req w1;
          apiKey = apiKey_of cfg req;
          apiUrl = apiUrl_of cfg req
      in if isDiscoveryRequest cfg req then
           (let (demoServer, w3) = createMcpServer apiUrl ''demo-key'' w2
            in serve_with env demoServer w3)
         else if apiKey = [] then
           (\<lparr>response = Json 400 missing_api_key, bound_server = None, bound_transport = None\<rparr>, w2)
         else
           (let (mcpServer, w3) = resolve apiUrl apiKey w2
            in serve_with env mcpServer w3))"

subsection \<open>The server as a state machine\<close>

text \<open>
  The events that change the state while the server runs: a request to one of the
  endpoints that only count it (\<^verbatim>\<open>/\<close>, \<^verbatim>\<open>/health\<close>, \<^verbatim>\<open>/analytics\<close>,
  \<^verbatim>\<open>/analytics/tools\<close>, \<^verbatim>\<open>/analytics/dashboard\<close>; their responses are not modelled), an
  import, a request to \<^verbatim>\<open>/mcp\<close>, and a save (by the timer or at shutdown). Each handler
  is taken as one step: \<open>saveAnalytics\<close> runs to its end before the next event. Loading
  is started when the module is loaded and assigns \<^verbatim>\<open>analytics\<close> once, when its reads
  have completed; with the remote store that can be after requests have been counted. It
  is not one of the events: \<open>initial_world\<close> takes any analytics value, and what
  \<open>loadAnalytics\<close> does to a world is stated on its own.
\<close>

datatype event =
    GetRequest string "unit request" string
  | ImportRequest io string "import_body request"
  | McpRequest mcp_env "rpc_body request"
  | SaveTick io

fun step :: "config \<Rightarrow> event \<Rightarrow> world \<Rightarrow> world" where
  "step cfg (GetRequest now req endpoint) w = track now req endpoint w"
| "step cfg (ImportRequest env now req) w = snd (importHandler env now req w)"
| "step cfg (McpRequest env req) w = snd (mcpHandler cfg env req w)"
| "step cfg (SaveTick env) w = snd (saveAnalytics env w)"

fun run :: "config \<Rightarrow> event list \<Rightarrow> world \<Rightarrow> world" where
  "run cfg [] w = w"
| "run cfg (e # es) w = run cfg es (step cfg e w)"

definition initial_world :: "analytics \<Rightarrow> bool \<Rightarrow> json \<Rightarrow> data_dir \<Rightarrow> world" where
  \<comment> \<open>The state in which the first request is served: an analytics value (the module's
      initial one, or a loaded one), the stores as they are found, an empty cache.\<close>
  "initial_world a fb remote d =
     \<lparr>analytics = a, firebase_initialized = fb, firebase_data = remote,
      disk = d, console = [], mcpServers = Map.empty, servers_created = 0,
      transports_created = 0\<rparr>"

section \<open>Notions used in the statements\<close>


definition after_remote :: "io \<Rightarrow> world \<Rightarrow> world" where
  \<comment> \<open>The world after the first statement of \<open>saveAnalytics\<close>, the remote save.\<close>
  "after_remote env w =
     snd (FirebaseAnalytics_saveAnalytics env
            (sanitized_props (sanitizeObject (analytics_json (analytics w)))) w)"

definition counted :: "mcp_env \<Rightarrow> rpc_body request \<Rightarrow> world \<Rightarrow> world" where
  \<comment> \<open>The world after the two tracking steps with which the MCP handler begins.\<close>
  "counted env req w =
     track_tool_call (tool_call_clock env) req (track (request_clock env) req ''/mcp'' w)"

definition cache_fresh :: "world \<Rightarrow> bool" where
  \<comment> \<open>Every cached server was constructed earlier.\<close>
  "cache_fresh w = (\<forall>s \<in> ran (mcpServers w). server_id s < servers_created w)"

definition uncached :: "mcp_server \<Rightarrow> world \<Rightarrow> bool" where
  \<comment> \<open>The instance \<open>s\<close> was constructed earlier and is not in the cache.\<close>
  "uncached s w =
     ((\<forall>t \<in> ran (mcpServers w). server_id t \<noteq> server_id s) \<and> server_id s < servers_created w)"

definition not_lower :: "number \<Rightarrow> number \<Rightarrow> bool" where
  \<comment> \<open>The number \<open>y\<close> is \<open>x\<close> or above, or it is \<^verbatim>\<open>NaN\<close>.\<close>
  "not_lower x y = (y = NaN \<or> x = y \<or> js_less x y)"

definition negative :: "number option \<Rightarrow> bool" where
  \<comment> \<open>A property of an import body is there and is a number below zero.\<close>
  "negative x = (case x of None \<Rightarrow> False | Some n \<Rightarrow> js_less n (Finite 0))"

fun submits_negative :: "event \<Rightarrow> bool" where
  \<comment> \<open>The event is an import whose body has a negative \<^verbatim>\<open>totalRequests\<close> or \<^verbatim>\<open>totalToolCalls\<close>.\<close>
  "submits_negative (ImportRequest env now req) =
     (case body req of
        None \<Rightarrow> False
      | Some b \<Rightarrow> negative (import_totalRequests b) \<or> negative (import_totalToolCalls b))"
| "submits_negative e = False"

section \<open>Example inputs\<close>

definition get_request :: "unit request" where
  "get_request =
     \<lparr>http_method = ''GET'', ip = Some ''10.0.0.7'',
      x_forwarded_for = Some '' 203.0.113.9 , 10.0.0.1'', user_agent = Some ''curl/8.4.0'',
      accept = None, x_plausible_api_key = None, x_plausible_api_url = None,
      query_apiKey = None, query_apiUrl = None, body = None\<rparr>"

definition post_request :: "unit request" where
  "post_request = get_request\<lparr>http_method := ''POST'', x_forwarded_for := None\<rparr>"

definition many_calls :: "(string \<times> string \<times> unit request) list" where
  \<comment> \<open>101 invocations of \<open>trackToolCall\<close>, the n-th for the tool whose name is n letters long.\<close>
  "many_calls = map (\<lambda>n. (''2026-01-01T00:00:00.000Z'', replicate n CHR ''t'', get_request)) [1..<102]"

definition quiet_io :: io where
  \<comment> \<open>No call fails, the remote store holds nothing.\<close>
  "quiet_io =
     \<lparr>clock = ''2026-02-02T10:00:00.000Z'', snapshot_val = JNull,
      firebase_read_fails = False, firebase_set_fails = False, mkdir_fails = False,
      write_fails = False, read_fails = False\<rparr>"

definition no_env :: config where
  "no_env = \<lparr>PLAUSIBLE_API_URL = None, PLAUSIBLE_API_KEY = None\<rparr>"

definition sdk_ok :: mcp_env where
  "sdk_ok =
     \<lparr>request_clock = ''2026-01-01T00:00:05.120Z'',
      tool_call_clock = ''2026-01-01T00:00:05.121Z'', sdk = Responds\<rparr>"

definition tool_call_request :: "rpc_body request" where
  \<comment> \<open>A \<^verbatim>\<open>tools/call\<close> for the tool \<^verbatim>\<open>hello\<close>, with no API key.\<close>
  "tool_call_request =
     \<lparr>http_method = ''POST'', ip = Some ''10.0.0.7'', x_forwarded_for = None,
      user_agent = Some ''node'', accept = Some ''application/json'',
      x_plausible_api_key = None, x_plausible_api_url = None,
      query_apiKey = None, query_apiUrl = None,
      body = Some \<lparr>rpc_method = Some ''tools/call'', tool_name = Some ''hello''\<rparr>\<rparr>"

definition discovery_request :: "rpc_body request" where
  "discovery_request =
     tool_call_request\<lparr>body := Some \<lparr>rpc_method = Some ''tools/list'', tool_name = None\<rparr>\<rparr>"

definition first_request :: "rpc_body request" where
  "first_request = tool_call_request\<lparr>query_apiKey := Some ''abcdefgh-first''\<rparr>"

definition second_request :: "rpc_body request" where
  "second_request = tool_call_request\<lparr>x_plausible_api_key := Some ''abcdefgh-second''\<rparr>"

definition fresh_world :: world where
  "fresh_world = initial_world (initial_analytics ''2026-01-01T00:00:00.000Z'') False JNull NoDir"

definition busy_world :: world where
  \<comment> \<open>The local-file-only server after two counted requests.\<close>
  "busy_world =
     run no_env
       [GetRequest ''2026-01-01T00:00:01.000Z'' get_request ''/health'',
        GetRequest ''2026-01-01T00:00:02.000Z'' post_request ''/''] fresh_world"

definition import_request :: "number option \<Rightarrow> number option \<Rightarrow> import_body request" where
  \<comment> \<open>An import whose body has the given \<^verbatim>\<open>totalRequests\<close> and \<^verbatim>\<open>totalToolCalls\<close>, if any.\<close>
  "import_request n m =
     \<lparr>http_method = ''POST'', ip = Some ''10.0.0.7'', x_forwarded_for = None,
      user_agent = Some ''curl/8.4.0'', accept = None,
      x_plausible_api_key = None, x_plausible_api_url = None,
      query_apiKey = None, query_apiUrl = None,
      body = Some \<lparr>import_totalRequests = n, import_totalToolCalls = m\<rparr>\<rparr>"

definition infinity_world :: world where
  \<comment> \<open>The local-file-only server after an import with the body \<^verbatim>\<open>{"totalRequests": 1e999}\<close>,
      a number that \<^verbatim>\<open>JSON.parse\<close> reads as \<^verbatim>\<open>Infinity\<close>.\<close>
  "infinity_world =
     run no_env
       [ImportRequest quiet_io ''2026-01-01T00:00:09.000Z'' (import_request (Some PosInfinity) None)]
       fresh_world"

definition remote_world :: world where
  \<comment> \<open>A server with the remote store, after two counted requests.\<close>
  "remote_world =
     run no_env
       [GetRequest ''2026-01-01T00:00:01.000Z'' get_request ''/health'',
        GetRequest ''2026-01-01T00:00:02.000Z'' post_request ''/'']
       (initial_world (initial_analytics ''2026-01-01T00:00:00.000Z'') True JNull NoDir)"

definition stored_snapshot :: io where
  \<comment> \<open>The remote store answers with the value of an earlier run, which had counted one request.\<close>
  "stored_snapshot =
     quiet_io\<lparr>snapshot_val :=
       JObj [(''serverStartTime'', JStr ''2025-12-31T00:00:00.000Z''),
             (''totalRequests'', JNum (Finite 1)),
             (''requestsByMethod'', JObj [(''GET'', JNum (Finite 1))])]\<rparr>"

lemmas example_defs = no_env_def sdk_ok_def tool_call_request_def discovery_request_def
  first_request_def second_request_def fresh_world_def import_request_def quiet_io_def
  initial_world_def initial_analytics_def

section \<open>Properties of the sanitizer\<close>

lemma underscore_valid: "\<not> invalid_key_char CHR ''_''"
  by (simp add: invalid_key_char_def)

lemma sanitizeKey_idem: "sanitizeKey (sanitizeKey k) = sanitizeKey k"
  by (simp add: sanitizeKey_def invalid_key_char_def)

lemma sanitizeKey_fixed: "(sanitizeKey k = k) = (\<forall>c\<in>set k. \<not> invalid_key_char c)"
  unfolding sanitizeKey_def using underscore_valid by (induction k) auto

lemma keys_set_prop:
  "map fst (set_prop obj k v) = (if k \<in> set (map fst obj) then map fst obj else map fst obj @ [k])"
  by (induction obj) (force split: if_splits)+

lemma set_set_prop: "set (set_prop obj k v) \<subseteq> insert (k, v) (set obj)"
  by (induction obj) (auto split: if_splits)

lemma set_prop_fresh: "k \<notin> set (map fst obj) \<Longrightarrow> set_prop obj k v = obj @ [(k, v)]"
  by (induction obj) auto

lemma normal_assign:
  "normal_entries obj \<Longrightarrow> sanitizeKey k = k \<Longrightarrow> normal v \<Longrightarrow> normal_entries (assign obj k v)"
  using set_set_prop [of obj k v]
  by (auto simp: normal_entries_def assign_def keys_set_prop list_all_iff)

text \<open>Whatever the input, the result of \<open>sanitizeObject\<close> is in normal form.\<close>

lemma normal_sanitize:
  "normal (sanitizeObject j)"
  "normal_entries acc \<Longrightarrow> normal_entries (sanitizeEntries acc kvs)"
proof (induction j and acc kvs rule: sanitizeObject_sanitizeEntries.induct)
  case (2 kvs)
  then show ?case by (simp add: normal_entries_def)
next
  case (5 sanitized key val rest)
  then show ?case by (simp add: normal_assign sanitizeKey_idem)
qed (simp_all add: list_all_iff)

text \<open>A value in normal form is left as it is: the loop rebuilds each mapping entry by entry.\<close>

lemma sanitize_normal:
  "normal j \<Longrightarrow> sanitizeObject j = j"
  "normal_entries (acc @ kvs) \<Longrightarrow> sanitizeEntries acc kvs = acc @ kvs"
proof (induction j and acc kvs rule: sanitizeObject_sanitizeEntries.induct)
  case (1 xs)
  then show ?case by (simp add: list_all_iff map_idI)
next
  case (2 kvs)
  then show ?case by (simp add: normal_entries_def)
next
  case (5 sanitized key val rest)
  from 5(3) have k: "sanitizeKey key = key" "key \<noteq> ''__proto__''" "normal val"
    "key \<notin> set (map fst sanitized)"
    by (auto simp: normal_entries_def)
  then have "assign sanitized (sanitizeKey key) (sanitizeObject val) = sanitized @ [(key, val)]"
    using 5(1) by (simp add: assign_def set_prop_fresh)
  then show ?case using 5(2) 5(3) by simp
qed simp_all

lemma normal_keys: "normal j \<Longrightarrow> k \<in> set (all_keys j) \<Longrightarrow> sanitizeKey k = k"
proof (induction j arbitrary: k)
  case (JArr xs)
  then show ?case by (auto simp: list_all_iff)
next
  case (JObj kvs)
  then show ?case by (fastforce simp: list_all_iff)
qed simp_all

lemma sanitize_rename:
  "keys_kept_apart j \<Longrightarrow> sanitizeObject j = rename_keys j"
  "distinct (map fst acc @ map (\<lambda>kv. sanitizeKey (fst kv)) kvs) \<Longrightarrow>
   ''__proto__'' \<notin> set (map (\<lambda>kv. sanitizeKey (fst kv)) kvs) \<Longrightarrow>
   list_all (\<lambda>kv. keys_kept_apart (snd kv)) kvs \<Longrightarrow>
   sanitizeEntries acc kvs = acc @ map (\<lambda>kv. (sanitizeKey (fst kv), rename_keys (snd kv))) kvs"
proof (induction j and acc kvs rule: sanitizeObject_sanitizeEntries.induct)
  case (1 xs)
  then show ?case by (simp add: list_all_iff)
next
  case (5 sanitized key val rest)
  from 5(3,4,5) have k: "sanitizeKey key \<noteq> ''__proto__''"
    "sanitizeKey key \<notin> set (map fst sanitized)" "keys_kept_apart val"
    by auto
  with 5(1) have a: "assign sanitized (sanitizeKey key) (sanitizeObject val) =
      sanitized @ [(sanitizeKey key, rename_keys val)]"
    by (simp add: assign_def set_prop_fresh)
  have "sanitizeEntries (sanitized @ [(sanitizeKey key, rename_keys val)]) rest =
      (sanitized @ [(sanitizeKey key, rename_keys val)]) @
      map (\<lambda>kv. (sanitizeKey (fst kv), rename_keys (snd kv))) rest"
    using 5(2) 5(3,4,5) unfolding a by auto
  then show ?case by (simp add: a)
qed simp_all

text \<open>
  Claim C4, as amended. For every JSON value: each key of the result of \<open>sanitizeObject\<close>, at
  every depth, contains none of the characters \<^verbatim>\<open>. # $ / [ ]\<close>; when in every mapping of
  the input no two keys have the same sanitized form and none is rewritten to
  \<^verbatim>\<open>__proto__\<close>, the result is the input with each key replaced by its sanitized form and
  nothing else changed; and \<open>sanitizeObject\<close> is idempotent.
\<close>

theorem sanitizeObject_renames_keys:
  "(\<forall>k \<in> set (all_keys (sanitizeObject v)). set k \<inter> set ''.#$/[]'' = {}) \<and>
   (keys_kept_apart v \<longrightarrow> sanitizeObject v = rename_keys v) \<and>
   sanitizeObject (sanitizeObject v) = sanitizeObject v"
proof (intro conjI ballI impI)
  fix k assume "k \<in> set (all_keys (sanitizeObject v))"
  then have "sanitizeKey k = k"
    using normal_sanitize(1) by (rule normal_keys [rotated])
  then have "\<forall>c\<in>set k. \<not> invalid_key_char c"
    by (simp add: sanitizeKey_fixed)
  then show "set k \<inter> set ''.#$/[]'' = {}"
    unfolding invalid_key_char_def by blast
next
  assume "keys_kept_apart v"
  then show "sanitizeObject v = rename_keys v" by (rule sanitize_rename(1))
next
  show "sanitizeObject (sanitizeObject v) = sanitizeObject v"
    by (rule sanitize_normal(1)) (rule normal_sanitize(1))
qed

theorem sanitizeObject_renames_keys_witness:
  "keys_kept_apart (JObj [(''a/b'', JNum (Finite 1)), (''x.y'', JArr [JObj [(''p#q'', JStr ''c/d'')]])]) \<and>
   sanitizeObject (JObj [(''a/b'', JNum (Finite 1)), (''x.y'', JArr [JObj [(''p#q'', JStr ''c/d'')]])]) =
     JObj [(''a_b'', JNum (Finite 1)), (''x_y'', JArr [JObj [(''p_q'', JStr ''c/d'')]])] \<and>
   sanitizeObject (sanitizeObject (JObj [(''a/b'', JNum (Finite 1)), (''x.y'', JArr [JObj [(''p#q'', JStr ''c/d'')]])])) =
     JObj [(''a_b'', JNum (Finite 1)), (''x_y'', JArr [JObj [(''p_q'', JStr ''c/d'')]])]"
  using sanitizeObject_renames_keys
    [of "JObj [(''a/b'', JNum (Finite 1)), (''x.y'', JArr [JObj [(''p#q'', JStr ''c/d'')]])]"]
  by (simp add: sanitizeKey_def invalid_key_char_def)

text \<open>
  Claim C4 as stated fails: two keys with the same sanitized form are written to the same
  property, and the later value replaces the earlier one; a key that is rewritten to
  \<^verbatim>\<open>__proto__\<close> has no property in the result.
\<close>

theorem sanitizeObject_loses_colliding_entry:
  "sanitizeObject (JObj [(''a/b'', JNum (Finite 1)), (''a_b'', JNum (Finite 2))]) = JObj [(''a_b'', JNum (Finite 2))] \<and>
   sanitizeObject (JObj [(''a/b'', JNum (Finite 1)), (''a_b'', JNum (Finite 2))]) \<noteq>
     rename_keys (JObj [(''a/b'', JNum (Finite 1)), (''a_b'', JNum (Finite 2))]) \<and>
   sanitizeObject (JObj [(''/_proto__'', JNum (Finite 1))]) = JObj []"
  by (simp add: sanitizeKey_def invalid_key_char_def assign_def)

section \<open>Properties of the analytics recorder\<close>

lemma take_append_take: "take n (xs @ take n ys) = take n (xs @ ys)"
  by (simp add: min_def)

lemma cap_unshift:
  "length r \<le> n \<Longrightarrow> (if length (c # r) > n then butlast (c # r) else c # r) = take n (c # r)"
proof (cases "length (c # r) > n")
  case True
  assume "length r \<le> n"
  with True have "length (c # r) - 1 = n" by simp
  then show ?thesis using True by (simp only: butlast_conv_take if_True)
next
  case False
  then show ?thesis by simp
qed

lemma recent_step:
  "length (recentToolCalls a) \<le> MAX_RECENT_CALLS \<Longrightarrow>
   recentToolCalls (trackToolCall now name req a) =
     take MAX_RECENT_CALLS (call_record (now, name, req) # recentToolCalls a)"
proof -
  let ?c = "call_record (now, name, req)"
  assume le: "length (recentToolCalls a) \<le> MAX_RECENT_CALLS"
  have "recentToolCalls (trackToolCall now name req a) =
        (if length (?c # recentToolCalls a) > MAX_RECENT_CALLS
         then butlast (?c # recentToolCalls a) else ?c # recentToolCalls a)"
    by (simp add: trackToolCall_def call_record_def Let_def)
  also have "\<dots> = take MAX_RECENT_CALLS (?c # recentToolCalls a)"
    using le by (rule cap_unshift)
  finally show ?thesis .
qed

lemma recent_trackToolCalls:
  "length (recentToolCalls a) \<le> MAX_RECENT_CALLS \<Longrightarrow>
   recentToolCalls (trackToolCalls cs a) =
     take MAX_RECENT_CALLS (rev (map call_record cs) @ recentToolCalls a)"
proof (induction cs arbitrary: a)
  case Nil
  then show ?case by simp
next
  case (Cons c cs)
  obtain now name req where c: "c = (now, name, req)" by (cases c)
  let ?a = "trackToolCall now name req a"
  have step: "recentToolCalls ?a = take MAX_RECENT_CALLS (call_record c # recentToolCalls a)"
    using Cons.prems by (simp add: recent_step c)
  then have "length (recentToolCalls ?a) \<le> MAX_RECENT_CALLS" by simp
  then have "recentToolCalls (trackToolCalls cs ?a) =
      take MAX_RECENT_CALLS (rev (map call_record cs) @ recentToolCalls ?a)"
    by (rule Cons.IH)
  then show ?case by (simp add: c step take_append_take del: take_append)
qed

text \<open>
  Claim C2. Starting from an empty \<open>recentToolCalls\<close>, after any sequence of invocations of
  \<open>trackToolCall\<close> the list holds the entries of the last 100 invocations, newest first, so
  it never has more than 100 entries; after 101 invocations it holds the entries of the
  second to the last invocation (the entry of the first is gone) and its head is the entry
  of the 101st.
\<close>

theorem recentToolCalls_newest_first_capped:
  "recentToolCalls a = [] \<longrightarrow>
     recentToolCalls (trackToolCalls cs a) = take MAX_RECENT_CALLS (rev (map call_record cs)) \<and>
     length (recentToolCalls (trackToolCalls cs a)) \<le> MAX_RECENT_CALLS \<and>
     (length cs = MAX_RECENT_CALLS + 1 \<longrightarrow>
        recentToolCalls (trackToolCalls cs a) = rev (map call_record (tl cs)) \<and>
        hd (recentToolCalls (trackToolCalls cs a)) = call_record (last cs))"
proof
  assume e: "recentToolCalls a = []"
  have r: "recentToolCalls (trackToolCalls cs a) = take MAX_RECENT_CALLS (rev (map call_record cs))"
    using recent_trackToolCalls [of a cs] e by simp
  have "length cs = MAX_RECENT_CALLS + 1 \<Longrightarrow>
      take MAX_RECENT_CALLS (rev (map call_record cs)) = rev (map call_record (tl cs))"
    by (cases cs) (simp_all add: MAX_RECENT_CALLS_def)
  moreover have "length cs = MAX_RECENT_CALLS + 1 \<Longrightarrow>
      hd (rev (map call_record (tl cs))) = call_record (last cs)"
    by (cases cs) (auto simp: MAX_RECENT_CALLS_def hd_rev last_map)
  ultimately show "recentToolCalls (trackToolCalls cs a) = take MAX_RECENT_CALLS (rev (map call_record cs)) \<and>
     length (recentToolCalls (trackToolCalls cs a)) \<le> MAX_RECENT_CALLS \<and>
     (length cs = MAX_RECENT_CALLS + 1 \<longrightarrow>
        recentToolCalls (trackToolCalls cs a) = rev (map call_record (tl cs)) \<and>
        hd (recentToolCalls (trackToolCalls cs a)) = call_record (last cs))"
    using r by simp
qed

theorem recentToolCalls_newest_first_capped_witness:
  "recentToolCalls (initial_analytics ''2026-01-01T00:00:00.000Z'') = [] \<and>
   length many_calls = MAX_RECENT_CALLS + 1 \<and>
   recentToolCalls (trackToolCalls many_calls (initial_analytics ''2026-01-01T00:00:00.000Z'')) =
     rev (map call_record (tl many_calls)) \<and>
   hd (recentToolCalls (trackToolCalls many_calls (initial_analytics ''2026-01-01T00:00:00.000Z''))) =
     call_record (last many_calls)"
proof -
  have e: "recentToolCalls (initial_analytics ''2026-01-01T00:00:00.000Z'') = []"
    by (simp add: initial_analytics_def)
  have l: "length many_calls = MAX_RECENT_CALLS + 1"
    by (simp add: many_calls_def MAX_RECENT_CALLS_def)
  from recentToolCalls_newest_first_capped
    [of "initial_analytics ''2026-01-01T00:00:00.000Z''" many_calls] e l
  show ?thesis by blast
qed

lemma sum_set_prop:
  "sum_list (map snd (set_prop m k v)) =
     sum_list (map snd m) - (case map_of m k of None \<Rightarrow> 0 | Some n \<Rightarrow> n) + (v::int)"
  by (induction m) auto

lemma sum_bump: "sum_list (map snd (bump m k)) = sum_list (map snd m) + 1"
  by (simp add: bump_def sum_set_prop split: option.split)

lemma trackRequests_totals:
  "totalRequests a = Finite n \<Longrightarrow>
   totalRequests (trackRequests rs a) = Finite (n + int (length rs)) \<and>
   sum_list (map snd (requestsByMethod (trackRequests rs a))) =
     sum_list (map snd (requestsByMethod a)) + int (length rs)"
proof (induction rs arbitrary: a n)
  case Nil
  then show ?case by simp
next
  case (Cons r rs)
  obtain now req endpoint where r: "r = (now, req, endpoint)" by (cases r)
  have "totalRequests (trackRequest now req endpoint a) = Finite (n + 1)"
    using Cons.prems by (simp add: trackRequest_def)
  from Cons.IH [OF this] show ?case unfolding r
    by (simp add: trackRequest_def sum_bump)
qed

text \<open>
  Claim C3. After any sequence of \<open>N\<close> invocations of \<open>trackRequest\<close> on the initial
  analytics value, \<open>totalRequests\<close> is \<open>N\<close> and the values of \<open>requestsByMethod\<close> add up
  to \<open>N\<close>.
\<close>

theorem trackRequests_counts_every_request:
  "totalRequests (trackRequests rs (initial_analytics start)) = Finite (int (length rs)) \<and>
   sum_list (map snd (requestsByMethod (trackRequests rs (initial_analytics start)))) = int (length rs)"
  using trackRequests_totals [of "initial_analytics start" 0 rs]
  by (simp add: initial_analytics_def)

theorem trackRequests_counts_every_request_witness:
  "totalRequests (trackRequests
      [(''2026-01-01T00:00:00.000Z'', get_request, ''/health''),
       (''2026-01-01T00:00:01.000Z'', post_request, ''/mcp''),
       (''2026-01-01T01:00:00.000Z'', get_request, ''/'')]
      (initial_analytics ''2026-01-01T00:00:00.000Z'')) = Finite 3 \<and>
   requestsByMethod (trackRequests
      [(''2026-01-01T00:00:00.000Z'', get_request, ''/health''),
       (''2026-01-01T00:00:01.000Z'', post_request, ''/mcp''),
       (''2026-01-01T01:00:00.000Z'', get_request, ''/'')]
      (initial_analytics ''2026-01-01T00:00:00.000Z'')) = [(''GET'', 2), (''POST'', 1)]"
  using trackRequests_counts_every_request
    [of "[(''2026-01-01T00:00:00.000Z'', get_request, ''/health''),
          (''2026-01-01T00:00:01.000Z'', post_request, ''/mcp''),
          (''2026-01-01T01:00:00.000Z'', get_request, ''/'')]" "''2026-01-01T00:00:00.000Z''"]
  by (simp add: trackRequest_def bump_def initial_analytics_def get_request_def post_request_def)

section \<open>Properties of the persistence\<close>

lemma FirebaseAnalytics_saveAnalytics_result:
  "FirebaseAnalytics_saveAnalytics env props w =
     (Inr (),
      if \<not> firebase_initialized w then w
      else if firebase_set_fails env then w\<lparr>console := console w @ [FirebaseSaveFailed FirebaseError]\<rparr>
      else w\<lparr>firebase_data := JObj (set_prop props ''lastUpdated'' (JStr (clock env)))\<rparr>)"
  by (simp add: FirebaseAnalytics_saveAnalytics_def try_catch_def ref_set_def returns_def
      throws_def console_log_def)

lemma after_remote_fields:
  "analytics (after_remote env w) = analytics w"
  "disk (after_remote env w) = disk w"
  "firebase_initialized (after_remote env w) = firebase_initialized w"
  "mcpServers (after_remote env w) = mcpServers w"
  "servers_created (after_remote env w) = servers_created w"
  "transports_created (after_remote env w) = transports_created w"
  by (simp_all add: after_remote_def FirebaseAnalytics_saveAnalytics_result)

text \<open>What \<open>saveAnalytics\<close> returns, in each case of the directory and of the two failures.\<close>

lemma saveAnalytics_result:
  "saveAnalytics env w =
     (Inr (),
      let w1 = after_remote env w in
      case disk w of
        NoDir \<Rightarrow>
          if mkdir_fails env then w1\<lparr>console := console w1 @ [SaveFailed FsError]\<rparr>
          else if write_fails env
          then w1\<lparr>disk := Dir None, console := console w1 @ [CreatedDataDir, SaveFailed FsError]\<rparr>
          else w1\<lparr>disk := Dir (Some (Doc (analytics_json (analytics w)))),
                  console := console w1 @ [CreatedDataDir, Saved (firebase_initialized w)]\<rparr>
      | Dir f \<Rightarrow>
          if write_fails env then w1\<lparr>console := console w1 @ [SaveFailed FsError]\<rparr>
          else w1\<lparr>disk := Dir (Some (Doc (analytics_json (analytics w)))),
                  console := console w1 @ [Saved (firebase_initialized w)]\<rparr>)"
  by (cases "disk w")
     (simp_all add: saveAnalytics_def try_catch_def and_then_def returns_def throws_def
       console_log_def ensureDataDir_def writeFileSync_def after_remote_def
       FirebaseAnalytics_saveAnalytics_result Let_def)

lemma saveAnalytics_analytics: "analytics (snd (saveAnalytics env w)) = analytics w"
  by (cases "disk w") (simp_all add: saveAnalytics_result Let_def after_remote_fields)

lemma saveAnalytics_cache:
  "mcpServers (snd (saveAnalytics env w)) = mcpServers w"
  "servers_created (snd (saveAnalytics env w)) = servers_created w"
  by (cases "disk w"; simp add: saveAnalytics_result Let_def after_remote_fields)+

text \<open>
  Claim C9. Neither the remote save nor \<open>saveAnalytics\<close> ever throws, whatever the remote
  store and the file system do. What \<open>saveAnalytics\<close> leaves on the disk depends on the
  directory and on the file system calls alone, not on the remote store: unless creating the
  directory or writing fails, the file holds the analytics value as it is (not sanitized),
  also when the remote write has failed. A failed remote write and a failed local write are
  each logged.
\<close>

theorem saveAnalytics_writes_locally_and_never_throws:
  "fst (FirebaseAnalytics_saveAnalytics env props w) = Inr () \<and>
   fst (saveAnalytics env w) = Inr () \<and>
   analytics (snd (saveAnalytics env w)) = analytics w \<and>
   disk (snd (saveAnalytics env w)) =
     (if disk w = NoDir \<and> mkdir_fails env then NoDir
      else if write_fails env then (case disk w of NoDir \<Rightarrow> Dir None | Dir f \<Rightarrow> Dir f)
      else Dir (Some (Doc (analytics_json (analytics w))))) \<and>
   (firebase_initialized w \<and> firebase_set_fails env \<longrightarrow>
      FirebaseSaveFailed FirebaseError \<in> set (console (snd (saveAnalytics env w)))) \<and>
   ((disk w = NoDir \<and> mkdir_fails env) \<or> write_fails env \<longrightarrow>
      SaveFailed FsError \<in> set (console (snd (saveAnalytics env w))))"
  by (cases "disk w")
     (auto simp: saveAnalytics_result FirebaseAnalytics_saveAnalytics_result Let_def
        after_remote_def)

theorem saveAnalytics_writes_locally_and_never_throws_witness:
  "firebase_initialized (initial_world (initial_analytics ''2026-01-01T00:00:00.000Z'') True JNull NoDir) \<and>
   firebase_set_fails (quiet_io\<lparr>firebase_set_fails := True\<rparr>) \<and>
   saveAnalytics (quiet_io\<lparr>firebase_set_fails := True\<rparr>)
       (initial_world (initial_analytics ''2026-01-01T00:00:00.000Z'') True JNull NoDir) =
     (Inr (), (initial_world (initial_analytics ''2026-01-01T00:00:00.000Z'') True JNull NoDir)
        \<lparr>disk := Dir (Some (Doc (analytics_json (initial_analytics ''2026-01-01T00:00:00.000Z'')))),
         console := [FirebaseSaveFailed FirebaseError, CreatedDataDir, Saved True]\<rparr>) \<and>
   write_fails (quiet_io\<lparr>write_fails := True\<rparr>) \<and>
   saveAnalytics (quiet_io\<lparr>write_fails := True\<rparr>)
       (initial_world (initial_analytics ''2026-01-01T00:00:00.000Z'') False JNull (Dir None)) =
     (Inr (), (initial_world (initial_analytics ''2026-01-01T00:00:00.000Z'') False JNull (Dir None))
        \<lparr>console := [SaveFailed FsError]\<rparr>)"
  using saveAnalytics_writes_locally_and_never_throws
      [of "quiet_io\<lparr>firebase_set_fails := True\<rparr>" "[]"
        "initial_world (initial_analytics ''2026-01-01T00:00:00.000Z'') True JNull NoDir"]
    saveAnalytics_writes_locally_and_never_throws
      [of "quiet_io\<lparr>write_fails := True\<rparr>" "[]"
        "initial_world (initial_analytics ''2026-01-01T00:00:00.000Z'') False JNull (Dir None)"]
  by (simp add: saveAnalytics_result after_remote_def FirebaseAnalytics_saveAnalytics_result
      Let_def quiet_io_def initial_world_def)

subsection \<open>Saving and loading again\<close>








lemma parse_stringified_tool_call: "parse_stringified (tool_call_json c) = tool_call_json c"
  by (simp add: tool_call_json_def)

lemma parse_stringified_tool_calls:
  "map parse_stringified (map tool_call_json cs) = map tool_call_json cs"
  by (simp add: parse_stringified_tool_call)









section \<open>Properties of the MCP endpoint\<close>

lemma fix_accept_fields:
  "http_method (fix_accept req) = http_method req"
  "ip (fix_accept req) = ip req"
  "x_forwarded_for (fix_accept req) = x_forwarded_for req"
  "user_agent (fix_accept req) = user_agent req"
  "x_plausible_api_key (fix_accept req) = x_plausible_api_key req"
  "x_plausible_api_url (fix_accept req) = x_plausible_api_url req"
  "query_apiKey (fix_accept req) = query_apiKey req"
  "query_apiUrl (fix_accept req) = query_apiUrl req"
  "body (fix_accept req) = body req"
  by (simp_all add: fix_accept_def Let_def)

lemma fix_accept_client:
  "client_ip (fix_accept req) = client_ip req"
  "short_agent (fix_accept req) = short_agent req"
  by (simp_all add: client_ip_def short_agent_def fix_accept_fields)

lemma fix_accept_views:
  "apiKey_of cfg (fix_accept req) = apiKey_of cfg req"
  "apiUrl_of cfg (fix_accept req) = apiUrl_of cfg req"
  "mcpMethod_of (fix_accept req) = mcpMethod_of req"
  "isDiscoveryRequest cfg (fix_accept req) = isDiscoveryRequest cfg req"
  by (simp_all add: apiKey_of_def apiUrl_of_def mcpMethod_of_def
      isDiscoveryRequest_def fix_accept_fields)

lemma fix_accept_tracking:
  "trackRequest now (fix_accept req) endpoint a = trackRequest now req endpoint a"
  "trackToolCall now name (fix_accept req) a = trackToolCall now name req a"
  by (simp_all add: trackRequest_def trackToolCall_def fix_accept_fields fix_accept_client)

lemma counted_fix_accept:
  "track_tool_call (tool_call_clock env) (fix_accept req)
     (track (request_clock env) (fix_accept req) ''/mcp'' w) = counted env req w"
  by (simp add: counted_def track_tool_call_def track_def fix_accept_fields fix_accept_tracking
      split: option.split)

lemma counted_fields:
  "mcpServers (counted env req w) = mcpServers w"
  "servers_created (counted env req w) = servers_created w"
  "transports_created (counted env req w) = transports_created w"
  "disk (counted env req w) = disk w"
  "firebase_initialized (counted env req w) = firebase_initialized w"
  by (simp_all add: counted_def track_tool_call_def track_def split: option.split)

lemma counted_analytics:
  "analytics (counted env req w) =
     (case body req of
        None \<Rightarrow> trackRequest (request_clock env) req ''/mcp'' (analytics w)
      | Some b \<Rightarrow>
          (case tool_name b of
             None \<Rightarrow> trackRequest (request_clock env) req ''/mcp'' (analytics w)
           | Some name \<Rightarrow>
               if rpc_method b = Some ''tools/call'' \<and> name \<noteq> []
               then trackToolCall (tool_call_clock env) name req
                      (trackRequest (request_clock env) req ''/mcp'' (analytics w))
               else trackRequest (request_clock env) req ''/mcp'' (analytics w)))"
  by (simp add: counted_def track_tool_call_def track_def split: option.split)

text \<open>The three ways through the handler, after the tracking.\<close>

lemma mcpHandler_unfold:
  "mcpHandler cfg env req w =
     (if isDiscoveryRequest cfg req then
        serve_with env \<lparr>server_id = servers_created w, server_apiUrl = apiUrl_of cfg req,
                         server_apiKey = ''demo-key''\<rparr>
          ((counted env req w)\<lparr>servers_created := servers_created w + 1\<rparr>)
      else if apiKey_of cfg req = [] then
        (\<lparr>response = Json 400 missing_api_key, bound_server = None, bound_transport = None\<rparr>,
         counted env req w)
      else
        (case mcpServers w (credentialsKey (apiUrl_of cfg req) (apiKey_of cfg req)) of
           Some s \<Rightarrow> serve_with env s (counted env req w)
         | None \<Rightarrow>
             serve_with env \<lparr>server_id = servers_created w, server_apiUrl = apiUrl_of cfg req,
                              server_apiKey = apiKey_of cfg req\<rparr>
               ((counted env req w)
                  \<lparr>servers_created := servers_created w + 1,
                   mcpServers := (mcpServers w)
                     (credentialsKey (apiUrl_of cfg req) (apiKey_of cfg req) \<mapsto>
                        \<lparr>server_id = servers_created w, server_apiUrl = apiUrl_of cfg req,
                         server_apiKey = apiKey_of cfg req\<rparr>)\<rparr>)))"
  by (simp add: mcpHandler_def Let_def fix_accept_views counted_fix_accept createMcpServer_def
      resolve_def counted_fields split: option.split)

lemma mcpHandler_analytics:
  "analytics (snd (mcpHandler cfg env req w)) = analytics (counted env req w)"
  by (simp add: mcpHandler_unfold serve_with_def split: option.split)

lemma mcpHandler_keeps_entry:
  "mcpServers w k = Some s \<Longrightarrow> mcpServers (snd (mcpHandler cfg env req w)) k = Some s"
  by (auto simp: mcpHandler_unfold serve_with_def counted_fields split: option.split)

lemma importHandler_cache:
  "mcpServers (snd (importHandler env now req w)) = mcpServers w"
  "servers_created (snd (importHandler env now req w)) = servers_created w"
  by (simp_all add: importHandler_def Let_def track_def saveAnalytics_cache split: option.split)

text \<open>The cache never loses or replaces an entry.\<close>

lemma step_keeps_entry:
  "mcpServers w k = Some s \<Longrightarrow> mcpServers (step cfg e w) k = Some s"
  by (cases e) (simp_all add: track_def importHandler_cache saveAnalytics_cache mcpHandler_keeps_entry)

lemma run_keeps_entry:
  "mcpServers w k = Some s \<Longrightarrow> mcpServers (run cfg es w) k = Some s"
  by (induction es arbitrary: w) (simp_all add: step_keeps_entry)

lemma mcpHandler_cache_fresh:
  "cache_fresh w \<Longrightarrow> cache_fresh (snd (mcpHandler cfg env req w))"
  by (auto simp: cache_fresh_def mcpHandler_unfold serve_with_def counted_fields ran_def
      split: option.split if_splits)

lemma step_cache_fresh: "cache_fresh w \<Longrightarrow> cache_fresh (step cfg e w)"
  by (cases e)
     (simp_all add: mcpHandler_cache_fresh,
      simp_all add: cache_fresh_def track_def importHandler_cache saveAnalytics_cache)

lemma run_cache_fresh: "cache_fresh w \<Longrightarrow> cache_fresh (run cfg es w)"
  by (induction es arbitrary: w) (simp_all add: step_cache_fresh)

lemma initial_cache_fresh: "cache_fresh (initial_world a fb remote d)"
  by (simp add: cache_fresh_def initial_world_def)

lemma mcpHandler_uncached: "uncached s w \<Longrightarrow> uncached s (snd (mcpHandler cfg env req w))"
  by (auto simp: uncached_def mcpHandler_unfold serve_with_def counted_fields ran_def
      split: option.split if_splits)

lemma step_uncached: "uncached s w \<Longrightarrow> uncached s (step cfg e w)"
  by (cases e)
     (simp_all add: mcpHandler_uncached,
      simp_all add: uncached_def track_def importHandler_cache saveAnalytics_cache)

lemma run_uncached: "uncached s w \<Longrightarrow> uncached s (run cfg es w)"
  by (induction es arbitrary: w) (simp_all add: step_uncached)

lemma uncached_not_in_cache: "uncached s w \<Longrightarrow> s \<notin> ran (mcpServers w)"
  by (auto simp: uncached_def)

lemma mcpHandler_with_key:
  "apiKey_of cfg req \<noteq> [] \<Longrightarrow>
   bound_server (fst (mcpHandler cfg env req w)) =
     mcpServers (snd (mcpHandler cfg env req w))
       (credentialsKey (apiUrl_of cfg req) (apiKey_of cfg req)) \<and>
   bound_server (fst (mcpHandler cfg env req w)) =
     (case mcpServers w (credentialsKey (apiUrl_of cfg req) (apiKey_of cfg req)) of
        Some s \<Rightarrow> Some s
      | None \<Rightarrow> Some \<lparr>server_id = servers_created w, server_apiUrl = apiUrl_of cfg req,
                       server_apiKey = apiKey_of cfg req\<rparr>) \<and>
   servers_created (snd (mcpHandler cfg env req w)) =
     (case mcpServers w (credentialsKey (apiUrl_of cfg req) (apiKey_of cfg req)) of
        Some s \<Rightarrow> servers_created w
      | None \<Rightarrow> servers_created w + 1)"
  by (simp add: mcpHandler_unfold isDiscoveryRequest_def serve_with_def counted_fields
      split: option.split)

lemma trackRequest_totals:
  "totalRequests (trackRequest now req endpoint a) = js_add (totalRequests a) (Finite 1)"
  "totalToolCalls (trackRequest now req endpoint a) = totalToolCalls a"
  by (simp_all add: trackRequest_def)

lemma trackToolCall_totals:
  "totalRequests (trackToolCall now name req a) = totalRequests a"
  "totalToolCalls (trackToolCall now name req a) = js_add (totalToolCalls a) (Finite 1)"
  by (simp_all add: trackToolCall_def Let_def)

lemma js_add_one:
  "js_add (Finite n) (Finite 1) = Finite (n + 1)"
  "\<not> isFinite x \<Longrightarrow> js_add x (Finite 1) = x"
  by (cases x; simp)+

lemma resolve_result:
  "fst (resolve u k w) =
     (case mcpServers w (credentialsKey u k) of
        Some s \<Rightarrow> s
      | None \<Rightarrow> \<lparr>server_id = servers_created w, server_apiUrl = u, server_apiKey = k\<rparr>) \<and>
   mcpServers (snd (resolve u k w)) (credentialsKey u k) = Some (fst (resolve u k w)) \<and>
   servers_created (snd (resolve u k w)) =
     (case mcpServers w (credentialsKey u k) of
        Some s \<Rightarrow> servers_created w
      | None \<Rightarrow> servers_created w + 1)"
  by (simp add: resolve_def createMcpServer_def split: option.split)

lemma resolve_twice:
  "take 8 k = take 8 k' \<Longrightarrow>
   fst (resolve u k' (run cfg es (snd (resolve u k w)))) = fst (resolve u k w) \<and>
   mcpServers (snd (resolve u k w)) (u @ '':'' @ take 8 k) = Some (fst (resolve u k w)) \<and>
   (mcpServers w (u @ '':'' @ take 8 k) = None \<longrightarrow>
      fst (resolve u k w) = \<lparr>server_id = servers_created w, server_apiUrl = u, server_apiKey = k\<rparr>) \<and>
   servers_created (snd (resolve u k' (run cfg es (snd (resolve u k w))))) =
     servers_created (run cfg es (snd (resolve u k w)))"
proof -
  assume t: "take 8 k = take 8 k'"
  have key: "credentialsKey u k' = credentialsKey u k" "u @ '':'' @ take 8 k = credentialsKey u k"
    using t by (simp_all add: credentialsKey_def)
  have a: "mcpServers (snd (resolve u k w)) (credentialsKey u k) = Some (fst (resolve u k w))"
    using resolve_result [of u k w] by blast
  then have b: "mcpServers (run cfg es (snd (resolve u k w))) (credentialsKey u k) =
      Some (fst (resolve u k w))"
    by (rule run_keeps_entry)
  have c: "fst (resolve u k' (run cfg es (snd (resolve u k w)))) = fst (resolve u k w)"
    "servers_created (snd (resolve u k' (run cfg es (snd (resolve u k w))))) =
     servers_created (run cfg es (snd (resolve u k w)))"
    using resolve_result [of u k' "run cfg es (snd (resolve u k w))"] b by (simp_all add: key)
  have d: "mcpServers w (credentialsKey u k) = None \<longrightarrow>
      fst (resolve u k w) = \<lparr>server_id = servers_created w, server_apiUrl = u, server_apiKey = k\<rparr>"
    using resolve_result [of u k w] by simp
  show ?thesis unfolding key(2) using a c d by blast
qed

lemma handler_resolves_same_server:
  "apiKey_of cfg req1 \<noteq> [] \<and> apiKey_of cfg req2 \<noteq> [] \<and>
   apiUrl_of cfg req1 = apiUrl_of cfg req2 \<and>
   take 8 (apiKey_of cfg req1) = take 8 (apiKey_of cfg req2) \<longrightarrow>
   (let key = apiUrl_of cfg req1 @ '':'' @ take 8 (apiKey_of cfg req1);
        first = mcpHandler cfg env1 req1 w;
        between = run cfg es (snd first);
        second = mcpHandler cfg env2 req2 between
    in bound_server (fst first) \<noteq> None \<and>
       mcpServers (snd first) key = bound_server (fst first) \<and>
       (mcpServers w key = None \<longrightarrow>
          bound_server (fst first) =
            Some \<lparr>server_id = servers_created w, server_apiUrl = apiUrl_of cfg req1,
                  server_apiKey = apiKey_of cfg req1\<rparr>) \<and>
       bound_server (fst second) = bound_server (fst first) \<and>
       mcpServers (snd second) key = bound_server (fst first) \<and>
       servers_created (snd second) = servers_created between)"
proof
  assume h: "apiKey_of cfg req1 \<noteq> [] \<and> apiKey_of cfg req2 \<noteq> [] \<and>
   apiUrl_of cfg req1 = apiUrl_of cfg req2 \<and>
   take 8 (apiKey_of cfg req1) = take 8 (apiKey_of cfg req2)"
  define key where "key = apiUrl_of cfg req1 @ '':'' @ take 8 (apiKey_of cfg req1)"
  define first where "first = mcpHandler cfg env1 req1 w"
  define between where "between = run cfg es (snd first)"
  define second where "second = mcpHandler cfg env2 req2 between"
  have k1: "credentialsKey (apiUrl_of cfg req1) (apiKey_of cfg req1) = key"
    by (simp add: credentialsKey_def key_def)
  have k2: "credentialsKey (apiUrl_of cfg req2) (apiKey_of cfg req2) = key"
    using h by (simp add: credentialsKey_def key_def)
  from h have n1: "apiKey_of cfg req1 \<noteq> []" and n2: "apiKey_of cfg req2 \<noteq> []" by simp_all
  have f: "bound_server (fst first) = mcpServers (snd first) key"
    "bound_server (fst first) =
       (case mcpServers w key of
          Some s \<Rightarrow> Some s
        | None \<Rightarrow> Some \<lparr>server_id = servers_created w, server_apiUrl = apiUrl_of cfg req1,
                       server_apiKey = apiKey_of cfg req1\<rparr>)"
    using mcpHandler_with_key [OF n1, of env1 w] unfolding k1 first_def by blast+
  have "bound_server (fst first) \<noteq> None"
    unfolding f(2) by (simp split: option.split)
  then obtain s where s: "bound_server (fst first) = Some s"
    by blast
  with f have "mcpServers (snd first) key = Some s" by simp
  then have b: "mcpServers between key = Some s"
    unfolding between_def by (rule run_keeps_entry)
  have g: "bound_server (fst second) = mcpServers (snd second) key"
    "bound_server (fst second) = (case mcpServers between key of Some s \<Rightarrow> Some s
        | None \<Rightarrow> Some \<lparr>server_id = servers_created between, server_apiUrl = apiUrl_of cfg req2,
                       server_apiKey = apiKey_of cfg req2\<rparr>)"
    "servers_created (snd second) =
       (case mcpServers between key of Some s \<Rightarrow> servers_created between
        | None \<Rightarrow> servers_created between + 1)"
    using mcpHandler_with_key [OF n2, of env2 between] unfolding k2 second_def by blast+
  have "bound_server (fst first) \<noteq> None \<and>
       mcpServers (snd first) key = bound_server (fst first) \<and>
       (mcpServers w key = None \<longrightarrow>
          bound_server (fst first) =
            Some \<lparr>server_id = servers_created w, server_apiUrl = apiUrl_of cfg req1,
                  server_apiKey = apiKey_of cfg req1\<rparr>) \<and>
       bound_server (fst second) = bound_server (fst first) \<and>
       mcpServers (snd second) key = bound_server (fst first) \<and>
       servers_created (snd second) = servers_created between"
    using f g b s by (auto split: option.split_asm)
  then show "let key = apiUrl_of cfg req1 @ '':'' @ take 8 (apiKey_of cfg req1);
        first = mcpHandler cfg env1 req1 w;
        between = run cfg es (snd first);
        second = mcpHandler cfg env2 req2 between
    in bound_server (fst first) \<noteq> None \<and>
       mcpServers (snd first) key = bound_server (fst first) \<and>
       (mcpServers w key = None \<longrightarrow>
          bound_server (fst first) =
            Some \<lparr>server_id = servers_created w, server_apiUrl = apiUrl_of cfg req1,
                  server_apiKey = apiKey_of cfg req1\<rparr>) \<and>
       bound_server (fst second) = bound_server (fst first) \<and>
       mcpServers (snd second) key = bound_server (fst first) \<and>
       servers_created (snd second) = servers_created between"
    unfolding Let_def key_def [symmetric] first_def [symmetric] between_def [symmetric]
      second_def [symmetric] .
qed

text \<open>
  Claim C1. The cache: resolving an API URL with an API key, and later, after any events,
  the same URL with a key that has the same first 8 characters, gives the same server
  instance; it is cached under \<^verbatim>\<open>${apiUrl}:${apiKey.substring(0, 8)}\<close>, was constructed by
  the first resolution if that key was not cached before, and the second resolution
  constructs none. The handler: two requests to \<^verbatim>\<open>/mcp\<close> that supply an API key (the key
  found in the query, the header or the environment is not empty), with the same API URL and
  with keys that agree on their first 8 characters, are bound to the same instance in the
  same way. A request without a key does not reach the cache.
\<close>

theorem cache_resolves_same_prefix_to_same_server:
  "(take 8 k = take 8 k' \<longrightarrow>
      fst (resolve u k' (run cfg es (snd (resolve u k w)))) = fst (resolve u k w) \<and>
      mcpServers (snd (resolve u k w)) (u @ '':'' @ take 8 k) = Some (fst (resolve u k w)) \<and>
      (mcpServers w (u @ '':'' @ take 8 k) = None \<longrightarrow>
         fst (resolve u k w) =
           \<lparr>server_id = servers_created w, server_apiUrl = u, server_apiKey = k\<rparr>) \<and>
      servers_created (snd (resolve u k' (run cfg es (snd (resolve u k w))))) =
        servers_created (run cfg es (snd (resolve u k w)))) \<and>
   (apiKey_of cfg req1 \<noteq> [] \<and> apiKey_of cfg req2 \<noteq> [] \<and>
   apiUrl_of cfg req1 = apiUrl_of cfg req2 \<and>
   take 8 (apiKey_of cfg req1) = take 8 (apiKey_of cfg req2) \<longrightarrow>
   (let key = apiUrl_of cfg req1 @ '':'' @ take 8 (apiKey_of cfg req1);
        first = mcpHandler cfg env1 req1 w;
        between = run cfg es (snd first);
        second = mcpHandler cfg env2 req2 between
    in bound_server (fst first) \<noteq> None \<and>
       mcpServers (snd first) key = bound_server (fst first) \<and>
       (mcpServers w key = None \<longrightarrow>
          bound_server (fst first) =
            Some \<lparr>server_id = servers_created w, server_apiUrl = apiUrl_of cfg req1,
                  server_apiKey = apiKey_of cfg req1\<rparr>) \<and>
       bound_server (fst second) = bound_server (fst first) \<and>
       mcpServers (snd second) key = bound_server (fst first) \<and>
       servers_created (snd second) = servers_created between))"
  using resolve_twice [of k k' u cfg es w] handler_resolves_same_server [of cfg req1 req2 env1 w es env2]
  by blast

theorem cache_resolves_same_prefix_to_same_server_witness:
  "take 8 ''abcdefgh-first'' = take 8 ''abcdefgh-second'' \<and>
   fst (resolve ''https://plausible.io'' ''abcdefgh-second''
          (run no_env [McpRequest sdk_ok discovery_request]
             (snd (resolve ''https://plausible.io'' ''abcdefgh-first'' fresh_world)))) =
     \<lparr>server_id = 0, server_apiUrl = ''https://plausible.io'', server_apiKey = ''abcdefgh-first''\<rparr> \<and>
   apiKey_of no_env first_request = ''abcdefgh-first'' \<and>
   apiKey_of no_env second_request = ''abcdefgh-second'' \<and>
   apiUrl_of no_env first_request = apiUrl_of no_env second_request \<and>
   bound_server (fst (mcpHandler no_env sdk_ok first_request fresh_world)) =
     Some \<lparr>server_id = 0, server_apiUrl = ''https://plausible.io'', server_apiKey = ''abcdefgh-first''\<rparr> \<and>
   bound_server (fst (mcpHandler no_env sdk_ok second_request
       (run no_env [McpRequest sdk_ok discovery_request]
          (snd (mcpHandler no_env sdk_ok first_request fresh_world))))) =
     Some \<lparr>server_id = 0, server_apiUrl = ''https://plausible.io'', server_apiKey = ''abcdefgh-first''\<rparr>"
  using cache_resolves_same_prefix_to_same_server
      [of "''abcdefgh-first''" "''abcdefgh-second''" "''https://plausible.io''" no_env
        "[McpRequest sdk_ok discovery_request]" fresh_world first_request second_request
        sdk_ok sdk_ok]
  by (simp add: apiKey_of_def apiUrl_of_def js_or_def
      DEFAULT_PLAUSIBLE_API_KEY_def DEFAULT_PLAUSIBLE_API_URL_def Let_def example_defs)

text \<open>
  Claim C6. On the server after any sequence of events, take a request to \<^verbatim>\<open>/mcp\<close> with no
  API key (none in the query, the header or the environment) whose method is
  \<^verbatim>\<open>initialize\<close>, \<^verbatim>\<open>tools/list\<close> or \<^verbatim>\<open>notifications/initialized\<close>. The request is bound
  to a server constructed for it, with the key \<^verbatim>\<open>demo-key\<close>, which is none of the cached
  instances, and to a new transport, which writes the response; the cache is as it was,
  and no later event puts that server into the cache.
\<close>

theorem discovery_without_credentials_is_not_cached:
  "apiKey_of cfg req = [] \<and>
   mcpMethod_of req \<in> {Some ''initialize'', Some ''tools/list'', Some ''notifications/initialized''} \<longrightarrow>
   (let w = run cfg es (initial_world a fb remote d);
        demo = \<lparr>server_id = servers_created w, server_apiUrl = apiUrl_of cfg req,
                 server_apiKey = ''demo-key''\<rparr>
    in bound_server (fst (mcpHandler cfg env req w)) = Some demo \<and>
       bound_transport (fst (mcpHandler cfg env req w)) = Some (transports_created w) \<and>
       (sdk env = Responds \<longrightarrow> response (fst (mcpHandler cfg env req w)) = ByTransport) \<and>
       (\<forall>s \<in> ran (mcpServers w). server_id s \<noteq> server_id demo) \<and>
       mcpServers (snd (mcpHandler cfg env req w)) = mcpServers w \<and>
       (\<forall>later. demo \<notin> ran (mcpServers (run cfg later (snd (mcpHandler cfg env req w))))))"
proof
  assume h: "apiKey_of cfg req = [] \<and>
   mcpMethod_of req \<in> {Some ''initialize'', Some ''tools/list'', Some ''notifications/initialized''}"
  define w where "w = run cfg es (initial_world a fb remote d)"
  define demo where "demo = \<lparr>server_id = servers_created w, server_apiUrl = apiUrl_of cfg req,
                 server_apiKey = ''demo-key''\<rparr>"
  have disc: "isDiscoveryRequest cfg req"
    using h by (auto simp: isDiscoveryRequest_def)
  have fresh: "cache_fresh w"
    unfolding w_def by (rule run_cache_fresh) (rule initial_cache_fresh)
  have res: "mcpHandler cfg env req w =
      serve_with env demo ((counted env req w)\<lparr>servers_created := servers_created w + 1\<rparr>)"
    using disc by (simp add: mcpHandler_unfold demo_def)
  have ids: "\<forall>s \<in> ran (mcpServers w). server_id s \<noteq> server_id demo"
    using fresh by (auto simp: cache_fresh_def demo_def)
  have same: "mcpServers (snd (mcpHandler cfg env req w)) = mcpServers w"
    by (simp add: res serve_with_def counted_fields)
  have "uncached demo (snd (mcpHandler cfg env req w))"
    using ids by (simp add: uncached_def res serve_with_def counted_fields) (simp add: demo_def)
  then have "demo \<notin> ran (mcpServers (run cfg later (snd (mcpHandler cfg env req w))))" for later
    by (intro uncached_not_in_cache run_uncached)
  then have later: "\<forall>later. demo \<notin> ran (mcpServers (run cfg later (snd (mcpHandler cfg env req w))))"
    by blast
  have "bound_server (fst (mcpHandler cfg env req w)) = Some demo \<and>
       bound_transport (fst (mcpHandler cfg env req w)) = Some (transports_created w) \<and>
       (sdk env = Responds \<longrightarrow> response (fst (mcpHandler cfg env req w)) = ByTransport)"
    by (simp add: res serve_with_def counted_fields)
  with ids same later
  show "let w = run cfg es (initial_world a fb remote d);
        demo = \<lparr>server_id = servers_created w, server_apiUrl = apiUrl_of cfg req,
                 server_apiKey = ''demo-key''\<rparr>
    in bound_server (fst (mcpHandler cfg env req w)) = Some demo \<and>
       bound_transport (fst (mcpHandler cfg env req w)) = Some (transports_created w) \<and>
       (sdk env = Responds \<longrightarrow> response (fst (mcpHandler cfg env req w)) = ByTransport) \<and>
       (\<forall>s \<in> ran (mcpServers w). server_id s \<noteq> server_id demo) \<and>
       mcpServers (snd (mcpHandler cfg env req w)) = mcpServers w \<and>
       (\<forall>later. demo \<notin> ran (mcpServers (run cfg later (snd (mcpHandler cfg env req w)))))"
    unfolding Let_def w_def [symmetric] demo_def [symmetric] by blast
qed

theorem discovery_without_credentials_is_not_cached_witness:
  "apiKey_of no_env discovery_request = [] \<and>
   mcpMethod_of discovery_request = Some ''tools/list'' \<and>
   bound_server (fst (mcpHandler no_env sdk_ok discovery_request
       (run no_env [McpRequest sdk_ok first_request] fresh_world))) =
     Some \<lparr>server_id = 1, server_apiUrl = ''https://plausible.io'', server_apiKey = ''demo-key''\<rparr> \<and>
   response (fst (mcpHandler no_env sdk_ok discovery_request
       (run no_env [McpRequest sdk_ok first_request] fresh_world))) = ByTransport \<and>
   mcpServers (snd (mcpHandler no_env sdk_ok discovery_request
       (run no_env [McpRequest sdk_ok first_request] fresh_world))) =
     mcpServers (run no_env [McpRequest sdk_ok first_request] fresh_world) \<and>
   mcpServers (run no_env [McpRequest sdk_ok first_request] fresh_world) ''https://plausible.io:abcdefgh'' =
     Some \<lparr>server_id = 0, server_apiUrl = ''https://plausible.io'', server_apiKey = ''abcdefgh-first''\<rparr>"
  using discovery_without_credentials_is_not_cached
      [of no_env discovery_request "[McpRequest sdk_ok first_request]"
        "initial_analytics ''2026-01-01T00:00:00.000Z''" False JNull NoDir sdk_ok]
  by (simp add: apiKey_of_def apiUrl_of_def mcpMethod_of_def js_or_def
      DEFAULT_PLAUSIBLE_API_KEY_def DEFAULT_PLAUSIBLE_API_URL_def Let_def
      mcpHandler_unfold isDiscoveryRequest_def serve_with_def counted_fields credentialsKey_def
      example_defs)



text \<open>
  Claim C10, as amended. Take a request to \<^verbatim>\<open>/mcp\<close> whose method is \<^verbatim>\<open>tools/call\<close> and
  that names a tool. Whatever its credentials are, when the handler returns the call's
  entry has been put in front of \<open>recentToolCalls\<close> (and the oldest entry dropped if there
  were 100), and \<^verbatim>\<open>++\<close> has been applied to \<open>totalRequests\<close> and to \<open>totalToolCalls\<close>:
  a counter that was a safe integer is one higher, a counter that was not finite is as it
  was. This is also so when the request has no API key and is answered with the 400
  response, which is sent without a server or a transport.
\<close>

theorem tool_call_tracked_before_credentials_are_checked:
  "body req = Some b \<and> rpc_method b = Some ''tools/call'' \<and> tool_name b = Some name \<and> name \<noteq> [] \<longrightarrow>
   (isSafeInteger (totalRequests (analytics w)) \<and> totalRequests (analytics w) = Finite n \<longrightarrow>
      totalRequests (analytics (snd (mcpHandler cfg env req w))) = Finite (n + 1)) \<and>
   (isSafeInteger (totalToolCalls (analytics w)) \<and> totalToolCalls (analytics w) = Finite m \<longrightarrow>
      totalToolCalls (analytics (snd (mcpHandler cfg env req w))) = Finite (m + 1)) \<and>
   (\<not> isFinite (totalRequests (analytics w)) \<longrightarrow>
      totalRequests (analytics (snd (mcpHandler cfg env req w))) = totalRequests (analytics w)) \<and>
   (\<not> isFinite (totalToolCalls (analytics w)) \<longrightarrow>
      totalToolCalls (analytics (snd (mcpHandler cfg env req w))) = totalToolCalls (analytics w)) \<and>
   recentToolCalls (analytics (snd (mcpHandler cfg env req w))) =
     (let unshifted = call_record (tool_call_clock env, name, req) # recentToolCalls (analytics w)
      in if length unshifted > MAX_RECENT_CALLS then butlast unshifted else unshifted) \<and>
   (apiKey_of cfg req = [] \<longrightarrow>
      fst (mcpHandler cfg env req w) =
        \<lparr>response = Json 400 missing_api_key, bound_server = None, bound_transport = None\<rparr>)"
proof
  assume h: "body req = Some b \<and> rpc_method b = Some ''tools/call'' \<and> tool_name b = Some name \<and> name \<noteq> []"
  have a: "analytics (snd (mcpHandler cfg env req w)) =
     trackToolCall (tool_call_clock env) name req
       (trackRequest (request_clock env) req ''/mcp'' (analytics w))"
    using h by (simp add: mcpHandler_analytics counted_analytics)
  have d: "\<not> isDiscoveryRequest cfg req"
    using h by (simp add: isDiscoveryRequest_def mcpMethod_of_def)
  have r: "apiKey_of cfg req = [] \<longrightarrow>
      fst (mcpHandler cfg env req w) =
        \<lparr>response = Json 400 missing_api_key, bound_server = None, bound_transport = None\<rparr>"
    using d by (simp add: mcpHandler_unfold)
  have rc: "recentToolCalls (analytics (snd (mcpHandler cfg env req w))) =
     (let unshifted = call_record (tool_call_clock env, name, req) # recentToolCalls (analytics w)
      in if length unshifted > MAX_RECENT_CALLS then butlast unshifted else unshifted)"
    unfolding a by (simp add: trackToolCall_def trackRequest_def call_record_def Let_def)
  have t: "totalRequests (analytics (snd (mcpHandler cfg env req w))) =
      js_add (totalRequests (analytics w)) (Finite 1)"
    "totalToolCalls (analytics (snd (mcpHandler cfg env req w))) =
      js_add (totalToolCalls (analytics w)) (Finite 1)"
    unfolding a by (simp_all add: trackToolCall_totals trackRequest_totals)
  have c1: "isSafeInteger (totalRequests (analytics w)) \<and> totalRequests (analytics w) = Finite n \<longrightarrow>
      totalRequests (analytics (snd (mcpHandler cfg env req w))) = Finite (n + 1)"
    by (simp add: t js_add_one)
  have c2: "isSafeInteger (totalToolCalls (analytics w)) \<and> totalToolCalls (analytics w) = Finite m \<longrightarrow>
      totalToolCalls (analytics (snd (mcpHandler cfg env req w))) = Finite (m + 1)"
    by (simp add: t js_add_one)
  have c3: "\<not> isFinite (totalRequests (analytics w)) \<longrightarrow>
      totalRequests (analytics (snd (mcpHandler cfg env req w))) = totalRequests (analytics w)"
    by (simp add: t js_add_one)
  have c4: "\<not> isFinite (totalToolCalls (analytics w)) \<longrightarrow>
      totalToolCalls (analytics (snd (mcpHandler cfg env req w))) = totalToolCalls (analytics w)"
    by (simp add: t js_add_one)
  from c1 c2 c3 c4 rc r
  show "(isSafeInteger (totalRequests (analytics w)) \<and> totalRequests (analytics w) = Finite n \<longrightarrow>
      totalRequests (analytics (snd (mcpHandler cfg env req w))) = Finite (n + 1)) \<and>
   (isSafeInteger (totalToolCalls (analytics w)) \<and> totalToolCalls (analytics w) = Finite m \<longrightarrow>
      totalToolCalls (analytics (snd (mcpHandler cfg env req w))) = Finite (m + 1)) \<and>
   (\<not> isFinite (totalRequests (analytics w)) \<longrightarrow>
      totalRequests (analytics (snd (mcpHandler cfg env req w))) = totalRequests (analytics w)) \<and>
   (\<not> isFinite (totalToolCalls (analytics w)) \<longrightarrow>
      totalToolCalls (analytics (snd (mcpHandler cfg env req w))) = totalToolCalls (analytics w)) \<and>
   recentToolCalls (analytics (snd (mcpHandler cfg env req w))) =
     (let unshifted = call_record (tool_call_clock env, name, req) # recentToolCalls (analytics w)
      in if length unshifted > MAX_RECENT_CALLS then butlast unshifted else unshifted) \<and>
   (apiKey_of cfg req = [] \<longrightarrow>
      fst (mcpHandler cfg env req w) =
        \<lparr>response = Json 400 missing_api_key, bound_server = None, bound_transport = None\<rparr>)"
    by blast
qed

theorem tool_call_tracked_before_credentials_are_checked_witness:
  "body tool_call_request = Some \<lparr>rpc_method = Some ''tools/call'', tool_name = Some ''hello''\<rparr> \<and>
   apiKey_of no_env tool_call_request = [] \<and>
   isSafeInteger (totalRequests (analytics busy_world)) \<and>
   totalRequests (analytics busy_world) = Finite 2 \<and>
   isSafeInteger (totalToolCalls (analytics busy_world)) \<and>
   totalToolCalls (analytics busy_world) = Finite 0 \<and>
   response (fst (mcpHandler no_env sdk_ok tool_call_request busy_world)) = Json 400 missing_api_key \<and>
   totalRequests (analytics (snd (mcpHandler no_env sdk_ok tool_call_request busy_world))) = Finite 3 \<and>
   totalToolCalls (analytics (snd (mcpHandler no_env sdk_ok tool_call_request busy_world))) = Finite 1 \<and>
   recentToolCalls (analytics (snd (mcpHandler no_env sdk_ok tool_call_request busy_world))) =
     [\<lparr>tool = ''hello'', timestamp = ''2026-01-01T00:00:05.121Z'', clientIp = ''10.0.0.7'',
       userAgent = ''node''\<rparr>]"
proof -
  have b: "body tool_call_request = Some \<lparr>rpc_method = Some ''tools/call'', tool_name = Some ''hello''\<rparr>"
    "rpc_method \<lparr>rpc_method = Some ''tools/call'', tool_name = Some ''hello''\<rparr> = Some ''tools/call''"
    "tool_name \<lparr>rpc_method = Some ''tools/call'', tool_name = Some ''hello''\<rparr> = Some ''hello''"
    "''hello'' \<noteq> []"
    by (simp_all add: tool_call_request_def)
  have k: "apiKey_of no_env tool_call_request = []"
    by (simp add: apiKey_of_def js_or_def DEFAULT_PLAUSIBLE_API_KEY_def example_defs)
  have t: "totalRequests (analytics busy_world) = Finite 2"
    "totalToolCalls (analytics busy_world) = Finite 0"
    "recentToolCalls (analytics busy_world) = []"
    by (simp_all add: busy_world_def fresh_world_def initial_world_def initial_analytics_def
        track_def trackRequest_def)
  have s: "isSafeInteger (totalRequests (analytics busy_world))"
    "isSafeInteger (totalToolCalls (analytics busy_world))"
    by (simp_all add: t MAX_SAFE_INTEGER_def)
  have c: "call_record (tool_call_clock sdk_ok, ''hello'', tool_call_request) =
      \<lparr>tool = ''hello'', timestamp = ''2026-01-01T00:00:05.121Z'', clientIp = ''10.0.0.7'',
        userAgent = ''node''\<rparr>"
    by (simp add: call_record_def client_ip_def short_agent_def js_or_def sdk_ok_def
        tool_call_request_def)
  from tool_call_tracked_before_credentials_are_checked
      [of tool_call_request "\<lparr>rpc_method = Some ''tools/call'', tool_name = Some ''hello''\<rparr>"
        "''hello''" busy_world 2 no_env sdk_ok 0] b k t s
  have "totalRequests (analytics (snd (mcpHandler no_env sdk_ok tool_call_request busy_world))) = Finite 3 \<and>
   totalToolCalls (analytics (snd (mcpHandler no_env sdk_ok tool_call_request busy_world))) = Finite 1 \<and>
   recentToolCalls (analytics (snd (mcpHandler no_env sdk_ok tool_call_request busy_world))) =
     [call_record (tool_call_clock sdk_ok, ''hello'', tool_call_request)] \<and>
   response (fst (mcpHandler no_env sdk_ok tool_call_request busy_world)) = Json 400 missing_api_key"
    by (simp add: MAX_RECENT_CALLS_def)
  with b k t s c show ?thesis by simp
qed

text \<open>
  Claim C10 as stated fails for a counter that is not finite: after an import with the
  body \<^verbatim>\<open>{"totalRequests": 1e999}\<close>, \<open>totalRequests\<close> is infinite, and a \<^verbatim>\<open>tools/call\<close>
  request without an API key, which is tracked and answered with the 400 response, leaves
  \<open>totalRequests\<close> as it was: it has not been incremented.
\<close>

theorem tool_call_does_not_raise_infinite_counter:
  "totalRequests (analytics infinity_world) = PosInfinity \<and>
   body tool_call_request = Some \<lparr>rpc_method = Some ''tools/call'', tool_name = Some ''hello''\<rparr> \<and>
   response (fst (mcpHandler no_env sdk_ok tool_call_request infinity_world)) =
     Json 400 missing_api_key \<and>
   hd (recentToolCalls (analytics (snd (mcpHandler no_env sdk_ok tool_call_request infinity_world)))) =
     \<lparr>tool = ''hello'', timestamp = ''2026-01-01T00:00:05.121Z'', clientIp = ''10.0.0.7'',
      userAgent = ''node''\<rparr> \<and>
   totalRequests (analytics (snd (mcpHandler no_env sdk_ok tool_call_request infinity_world))) =
     PosInfinity \<and>
   \<not> js_less (totalRequests (analytics infinity_world))
       (totalRequests (analytics (snd (mcpHandler no_env sdk_ok tool_call_request infinity_world))))"
proof -
  have t: "totalRequests (analytics infinity_world) = PosInfinity"
    by (simp add: infinity_world_def importHandler_def Let_def track_def saveAnalytics_analytics
        add_imported_def trackRequest_def import_request_def fresh_world_def initial_world_def
        initial_analytics_def)
  have b: "body tool_call_request = Some \<lparr>rpc_method = Some ''tools/call'', tool_name = Some ''hello''\<rparr>"
    by (simp add: tool_call_request_def)
  have a: "analytics (snd (mcpHandler no_env sdk_ok tool_call_request infinity_world)) =
      trackToolCall (tool_call_clock sdk_ok) ''hello'' tool_call_request
        (trackRequest (request_clock sdk_ok) tool_call_request ''/mcp'' (analytics infinity_world))"
    by (simp add: mcpHandler_analytics counted_analytics b)
  have r: "response (fst (mcpHandler no_env sdk_ok tool_call_request infinity_world)) =
      Json 400 missing_api_key"
    by (simp add: mcpHandler_unfold isDiscoveryRequest_def mcpMethod_of_def apiKey_of_def js_or_def
        DEFAULT_PLAUSIBLE_API_KEY_def no_env_def tool_call_request_def)
  have h: "hd (recentToolCalls (analytics (snd (mcpHandler no_env sdk_ok tool_call_request infinity_world)))) =
      \<lparr>tool = ''hello'', timestamp = ''2026-01-01T00:00:05.121Z'', clientIp = ''10.0.0.7'',
       userAgent = ''node''\<rparr>"
    unfolding a
    by (simp add: trackToolCall_def trackRequest_def Let_def client_ip_def short_agent_def
        js_or_def sdk_ok_def tool_call_request_def MAX_RECENT_CALLS_def)
  have c: "totalRequests (analytics (snd (mcpHandler no_env sdk_ok tool_call_request infinity_world))) =
      PosInfinity"
    unfolding a by (simp add: trackToolCall_totals trackRequest_totals t)
  from t b r h c show ?thesis by simp
qed
section \<open>The two counters\<close>

lemma importHandler_analytics:
  "analytics (snd (importHandler env now req w)) =
     (case body req of
        None \<Rightarrow> trackRequest now req ''/analytics/import'' (analytics w)
      | Some b \<Rightarrow> add_imported b (trackRequest now req ''/analytics/import'' (analytics w)))"
  by (simp add: importHandler_def Let_def track_def saveAnalytics_analytics split: option.split)

lemma add_imported_totals:
  "totalRequests (add_imported b a) =
     (case import_totalRequests b of
        None \<Rightarrow> totalRequests a
      | Some n \<Rightarrow> if truthy (JNum n) then js_add (totalRequests a) n else totalRequests a)"
  "totalToolCalls (add_imported b a) =
     (case import_totalToolCalls b of
        None \<Rightarrow> totalToolCalls a
      | Some n \<Rightarrow> if truthy (JNum n) then js_add (totalToolCalls a) n else totalToolCalls a)"
  by (simp_all add: add_imported_def Let_def split: option.split)

text \<open>
  \<open>not_lower\<close> is reflexive and transitive, and it excludes that the second number is
  below the first. Adding a number that is not negative never lowers a number.
\<close>

lemma not_lower_refl: "not_lower x x"
  by (simp add: not_lower_def)

lemma not_lower_trans: "not_lower x y \<Longrightarrow> not_lower y z \<Longrightarrow> not_lower x z"
  unfolding not_lower_def by (cases x; cases y; cases z; auto)

lemma not_lower_not_less: "not_lower x y \<Longrightarrow> \<not> js_less y x"
  unfolding not_lower_def by (cases x; cases y; auto)

lemma not_lower_add: "\<not> js_less n (Finite 0) \<Longrightarrow> not_lower x (js_add x n)"
  unfolding not_lower_def by (cases x; cases n; auto)

lemma not_lower_submitted:
  "\<not> negative s \<Longrightarrow>
   not_lower x (case s of None \<Rightarrow> x | Some n \<Rightarrow> if truthy (JNum n) then js_add x n else x)"
  by (cases s) (simp_all add: negative_def not_lower_add not_lower_refl)

lemma trackRequest_not_lower:
  "not_lower (totalRequests a) (totalRequests (trackRequest now req endpoint a))"
  "not_lower (totalToolCalls a) (totalToolCalls (trackRequest now req endpoint a))"
  by (simp_all add: trackRequest_totals not_lower_add not_lower_refl)

lemma trackToolCall_not_lower:
  "not_lower (totalRequests a) (totalRequests (trackToolCall now name req a))"
  "not_lower (totalToolCalls a) (totalToolCalls (trackToolCall now name req a))"
  by (simp_all add: trackToolCall_totals not_lower_add not_lower_refl)

lemma counted_not_lower:
  "not_lower (totalRequests (analytics w)) (totalRequests (analytics (counted env req w)))"
  "not_lower (totalToolCalls (analytics w)) (totalToolCalls (analytics (counted env req w)))"
  by (simp_all add: counted_analytics trackRequest_totals trackToolCall_totals not_lower_add
      not_lower_refl split: option.split)

lemma step_not_lower:
  "\<not> submits_negative e \<Longrightarrow>
   not_lower (totalRequests (analytics w)) (totalRequests (analytics (step cfg e w))) \<and>
   not_lower (totalToolCalls (analytics w)) (totalToolCalls (analytics (step cfg e w)))"
proof (cases e)
  case (GetRequest now req endpoint)
  then show ?thesis by (simp add: track_def trackRequest_not_lower)
next
  case (ImportRequest env now req)
  assume n: "\<not> submits_negative e"
  show ?thesis
  proof (cases "body req")
    case None
    then show ?thesis unfolding ImportRequest
      by (simp add: importHandler_analytics trackRequest_not_lower)
  next
    case (Some b)
    have s: "\<not> negative (import_totalRequests b)" "\<not> negative (import_totalToolCalls b)"
      using n unfolding ImportRequest by (simp_all add: Some)
    have "not_lower (totalRequests (analytics w))
        (totalRequests (trackRequest now req ''/analytics/import'' (analytics w)))"
      by (rule trackRequest_not_lower)
    moreover have "not_lower (totalRequests (trackRequest now req ''/analytics/import'' (analytics w)))
        (totalRequests (add_imported b (trackRequest now req ''/analytics/import'' (analytics w))))"
      unfolding add_imported_totals by (rule not_lower_submitted [OF s(1)])
    ultimately have r: "not_lower (totalRequests (analytics w))
        (totalRequests (add_imported b (trackRequest now req ''/analytics/import'' (analytics w))))"
      by (rule not_lower_trans)
    have "not_lower (totalToolCalls (analytics w))
        (totalToolCalls (trackRequest now req ''/analytics/import'' (analytics w)))"
      by (rule trackRequest_not_lower)
    moreover have "not_lower (totalToolCalls (trackRequest now req ''/analytics/import'' (analytics w)))
        (totalToolCalls (add_imported b (trackRequest now req ''/analytics/import'' (analytics w))))"
      unfolding add_imported_totals by (rule not_lower_submitted [OF s(2)])
    ultimately have t: "not_lower (totalToolCalls (analytics w))
        (totalToolCalls (add_imported b (trackRequest now req ''/analytics/import'' (analytics w))))"
      by (rule not_lower_trans)
    from r t show ?thesis unfolding ImportRequest
      by (simp add: importHandler_analytics Some)
  qed
next
  case (McpRequest env req)
  then show ?thesis by (simp add: mcpHandler_analytics counted_not_lower)
next
  case (SaveTick env)
  then show ?thesis by (simp add: saveAnalytics_analytics not_lower_refl)
qed

lemma run_not_lower:
  "list_all (\<lambda>e. \<not> submits_negative e) es \<Longrightarrow>
   not_lower (totalRequests (analytics w)) (totalRequests (analytics (run cfg es w))) \<and>
   not_lower (totalToolCalls (analytics w)) (totalToolCalls (analytics (run cfg es w)))"
proof (induction es arbitrary: w)
  case Nil
  then show ?case by (simp add: not_lower_refl)
next
  case (Cons e es)
  from Cons.prems have e: "\<not> submits_negative e" and es: "list_all (\<lambda>e. \<not> submits_negative e) es"
    by simp_all
  from step_not_lower [OF e, of w cfg] Cons.IH [OF es, of "step cfg e w"]
  show ?case by (auto intro: not_lower_trans)
qed

text \<open>
  Claim C8, as amended. \<open>totalRequests\<close> and \<open>totalToolCalls\<close> are numbers, and neither is
  ever lower after \<open>trackRequest\<close> or \<open>trackToolCall\<close> than before. The same holds for every
  event of the running server (a counted request, a request to \<^verbatim>\<open>/mcp\<close>, a save, an
  import) and for every sequence of events, as long as no import submits a negative
  number: the import handler counts the request and then adds the submitted numbers as
  they are.
\<close>

theorem counters_do_not_decrease_unless_import_is_negative:
  "\<not> js_less (totalRequests (trackRequest now req endpoint a)) (totalRequests a) \<and>
   \<not> js_less (totalToolCalls (trackRequest now req endpoint a)) (totalToolCalls a) \<and>
   \<not> js_less (totalRequests (trackToolCall now' name req' a)) (totalRequests a) \<and>
   \<not> js_less (totalToolCalls (trackToolCall now' name req' a)) (totalToolCalls a) \<and>
   (\<not> submits_negative e \<longrightarrow>
      \<not> js_less (totalRequests (analytics (step cfg e w))) (totalRequests (analytics w)) \<and>
      \<not> js_less (totalToolCalls (analytics (step cfg e w))) (totalToolCalls (analytics w))) \<and>
   (list_all (\<lambda>e. \<not> submits_negative e) es \<longrightarrow>
      \<not> js_less (totalRequests (analytics (run cfg es w))) (totalRequests (analytics w)) \<and>
      \<not> js_less (totalToolCalls (analytics (run cfg es w))) (totalToolCalls (analytics w)))"
  using step_not_lower [of e w cfg] run_not_lower [of es w cfg]
    trackRequest_not_lower [of a now req endpoint] trackToolCall_not_lower [of a now' name req']
  by (simp add: not_lower_not_less)

theorem counters_do_not_decrease_unless_import_is_negative_witness:
  "\<not> submits_negative (ImportRequest quiet_io ''2026-01-01T00:00:09.000Z''
       (import_request (Some (Finite 40)) (Some (Finite 2)))) \<and>
   list_all (\<lambda>e. \<not> submits_negative e)
     [ImportRequest quiet_io ''2026-01-01T00:00:09.000Z''
        (import_request (Some (Finite 40)) (Some (Finite 2))),
      McpRequest sdk_ok tool_call_request] \<and>
   totalRequests (analytics fresh_world) = Finite 0 \<and>
   totalToolCalls (analytics fresh_world) = Finite 0 \<and>
   totalRequests (analytics (step no_env
      (ImportRequest quiet_io ''2026-01-01T00:00:09.000Z''
         (import_request (Some (Finite 40)) (Some (Finite 2)))) fresh_world)) = Finite 41 \<and>
   totalToolCalls (analytics (step no_env
      (ImportRequest quiet_io ''2026-01-01T00:00:09.000Z''
         (import_request (Some (Finite 40)) (Some (Finite 2)))) fresh_world)) = Finite 2 \<and>
   totalRequests (analytics (run no_env
      [ImportRequest quiet_io ''2026-01-01T00:00:09.000Z''
         (import_request (Some (Finite 40)) (Some (Finite 2))),
       McpRequest sdk_ok tool_call_request] fresh_world)) = Finite 42 \<and>
   totalToolCalls (analytics (run no_env
      [ImportRequest quiet_io ''2026-01-01T00:00:09.000Z''
         (import_request (Some (Finite 40)) (Some (Finite 2))),
       McpRequest sdk_ok tool_call_request] fresh_world)) = Finite 3"
proof -
  have n: "\<not> submits_negative (ImportRequest quiet_io ''2026-01-01T00:00:09.000Z''
       (import_request (Some (Finite 40)) (Some (Finite 2))))"
    by (simp add: import_request_def negative_def)
  have l: "list_all (\<lambda>e. \<not> submits_negative e)
     [ImportRequest quiet_io ''2026-01-01T00:00:09.000Z''
        (import_request (Some (Finite 40)) (Some (Finite 2))),
      McpRequest sdk_ok tool_call_request]"
    by (simp add: import_request_def negative_def)
  have v: "totalRequests (analytics fresh_world) = Finite 0"
    "totalToolCalls (analytics fresh_world) = Finite 0"
    "totalRequests (analytics (step no_env
      (ImportRequest quiet_io ''2026-01-01T00:00:09.000Z''
         (import_request (Some (Finite 40)) (Some (Finite 2)))) fresh_world)) = Finite 41"
    "totalToolCalls (analytics (step no_env
      (ImportRequest quiet_io ''2026-01-01T00:00:09.000Z''
         (import_request (Some (Finite 40)) (Some (Finite 2)))) fresh_world)) = Finite 2"
    "totalRequests (analytics (run no_env
      [ImportRequest quiet_io ''2026-01-01T00:00:09.000Z''
         (import_request (Some (Finite 40)) (Some (Finite 2))),
       McpRequest sdk_ok tool_call_request] fresh_world)) = Finite 42"
    "totalToolCalls (analytics (run no_env
      [ImportRequest quiet_io ''2026-01-01T00:00:09.000Z''
         (import_request (Some (Finite 40)) (Some (Finite 2))),
       McpRequest sdk_ok tool_call_request] fresh_world)) = Finite 3"
    by (simp_all add: importHandler_analytics add_imported_totals mcpHandler_analytics
        counted_analytics trackRequest_totals trackToolCall_totals import_request_def
        tool_call_request_def fresh_world_def initial_world_def initial_analytics_def)
  from counters_do_not_decrease_unless_import_is_negative
      [of "''2026-01-01T00:00:09.000Z''" get_request "''/''" "analytics fresh_world"
        "''2026-01-01T00:00:09.000Z''" "''hello''" get_request
        "ImportRequest quiet_io ''2026-01-01T00:00:09.000Z''
           (import_request (Some (Finite 40)) (Some (Finite 2)))"
        no_env fresh_world
        "[ImportRequest quiet_io ''2026-01-01T00:00:09.000Z''
            (import_request (Some (Finite 40)) (Some (Finite 2))),
          McpRequest sdk_ok tool_call_request]"] n l
  have "\<not> js_less (totalRequests (analytics (run no_env
      [ImportRequest quiet_io ''2026-01-01T00:00:09.000Z''
         (import_request (Some (Finite 40)) (Some (Finite 2))),
       McpRequest sdk_ok tool_call_request] fresh_world))) (totalRequests (analytics fresh_world))"
    by blast
  with n l v show ?thesis by blast
qed

text \<open>
  Claim C8 as stated fails. An import that submits negative numbers makes both counters
  lower than they were. And \<open>loadAnalytics\<close>, whose read of the remote store may complete
  after requests have been counted, replaces the analytics value by the stored one: here
  two requests had been counted and the stored value had counted one.
\<close>

theorem negative_import_decreases_counters:
  "totalRequests (analytics fresh_world) = Finite 0 \<and>
   totalToolCalls (analytics fresh_world) = Finite 0 \<and>
   totalRequests (analytics (snd (importHandler quiet_io ''2026-01-01T00:00:09.000Z''
      (import_request (Some (Finite (- 5))) (Some (Finite (- 1)))) fresh_world))) = Finite (- 4) \<and>
   totalToolCalls (analytics (snd (importHandler quiet_io ''2026-01-01T00:00:09.000Z''
      (import_request (Some (Finite (- 5))) (Some (Finite (- 1)))) fresh_world))) = Finite (- 1) \<and>
   js_less (Finite (- 4)) (Finite 0) \<and> js_less (Finite (- 1)) (Finite 0) \<and>
   firebase_initialized remote_world \<and>
   totalRequests (analytics remote_world) = Finite 2 \<and>
   map_option (\<lambda>r. totalRequests (analytics (snd r))) (loadAnalytics stored_snapshot remote_world) =
     Some (Finite 1) \<and>
   js_less (Finite 1) (Finite 2)"
proof -
  have i: "totalRequests (analytics fresh_world) = Finite 0"
    "totalToolCalls (analytics fresh_world) = Finite 0"
    "totalRequests (analytics (snd (importHandler quiet_io ''2026-01-01T00:00:09.000Z''
      (import_request (Some (Finite (- 5))) (Some (Finite (- 1)))) fresh_world))) = Finite (- 4)"
    "totalToolCalls (analytics (snd (importHandler quiet_io ''2026-01-01T00:00:09.000Z''
      (import_request (Some (Finite (- 5))) (Some (Finite (- 1)))) fresh_world))) = Finite (- 1)"
    by (simp_all add: importHandler_analytics add_imported_totals trackRequest_totals
        import_request_def fresh_world_def initial_world_def initial_analytics_def)
  have f: "firebase_initialized remote_world"
    by (simp add: remote_world_def initial_world_def track_def)
  have t: "totalRequests (analytics remote_world) = Finite 2"
    by (simp add: remote_world_def initial_world_def initial_analytics_def track_def
        trackRequest_totals)
  have l: "map_option (\<lambda>r. totalRequests (analytics (snd r)))
      (loadAnalytics stored_snapshot remote_world) = Some (Finite 1)"
    using f
    by (simp add: loadAnalytics_def FirebaseAnalytics_loadAnalytics_def try_catch_def
        and_then_def ref_once_def returns_def adopt_def or_else_def stored_snapshot_def
        quiet_io_def)
  from i f t l show ?thesis by simp
qed
end
